theory Spec2Isabelle
  imports Main
begin

section \<open>Python strings and integers used by configure.py\<close>

text \<open>
  A Python \<open>str\<close> is modelled as a \<open>string\<close> (a list of 8-bit characters), so the
  model covers the ASCII range; digits and white space outside ASCII are not modelled.
\<close>

definition dq :: char where
  "dq = CHR 0x22"

definition backslash :: char where
  "backslash = CHR 0x5C"

definition is_digit :: "char \<Rightarrow> bool" where
  "is_digit c = (c \<in> set ''0123456789'')"

text \<open>The value of a digit is its character code less the code of \<open>0\<close>, which is 48.\<close>

definition digit_val :: "char \<Rightarrow> int" where
  "digit_val c = int (of_char c) - 48"

text \<open>The value of a string of decimal digits, most significant digit first.\<close>

definition dec_val :: "string \<Rightarrow> int" where
  "dec_val ds = foldl (\<lambda>a c. 10 * a + digit_val c) 0 ds"

text \<open>The characters \<open>str.strip()\<close> treats as white space (ASCII part).\<close>

definition is_space :: "char \<Rightarrow> bool" where
  "is_space c =
     (c \<in> set [CHR 0x09, CHR 0x0A, CHR 0x0B, CHR 0x0C, CHR 0x0D,
                CHR 0x1C, CHR 0x1D, CHR 0x1E, CHR 0x1F, CHR 0x20])"

text \<open>\<open>s.strip()\<close>: white space removed at both ends.\<close>

definition strip :: "string \<Rightarrow> string" where
  "strip s = rev (dropWhile is_space (rev (dropWhile is_space s)))"

text \<open>
  \<open>int()\<close> skips fewer characters around a literal than \<open>strip\<close> removes: the
  characters from tab to carriage return, and the space.
\<close>

definition is_int_space :: "char \<Rightarrow> bool" where
  "is_int_space c = (c \<in> set [CHR 0x09, CHR 0x0A, CHR 0x0B, CHR 0x0C, CHR 0x0D, CHR 0x20])"

definition int_strip :: "string \<Rightarrow> string" where
  "int_strip s = rev (dropWhile is_int_space (rev (dropWhile is_int_space s)))"

text \<open>
  \<open>s.split(sep)\<close> for a separator of one character: the result is never empty, and
  two adjacent separators give an empty component.
\<close>

fun split_on :: "char \<Rightarrow> string \<Rightarrow> string list" where
  "split_on sep [] = [[]]"
| "split_on sep (c # cs) =
     (if c = sep then [] # split_on sep cs
      else (case split_on sep cs of
              [] \<Rightarrow> [[c]]
            | w # ws \<Rightarrow> (c # w) # ws))"

text \<open>\<open>s.startswith(p)\<close>.\<close>

definition starts_with :: "string \<Rightarrow> string \<Rightarrow> bool" where
  "starts_with p s = (take (length p) s = p)"

text \<open>
  \<open>s.replace(old, new)\<close> for a non-empty \<open>old\<close>: every occurrence, left to right,
  without overlap. The counter is the number of characters of the current match that
  are still to be skipped.
\<close>

fun replace_from :: "string \<Rightarrow> string \<Rightarrow> nat \<Rightarrow> string \<Rightarrow> string" where
  "replace_from old new k [] = []"
| "replace_from old new (Suc k) (c # cs) = replace_from old new k cs"
| "replace_from old new 0 (c # cs) =
     (if starts_with old (c # cs) then new @ replace_from old new (length old - 1) cs
      else c # replace_from old new 0 cs)"

definition replace :: "string \<Rightarrow> string \<Rightarrow> string \<Rightarrow> string" where
  "replace old new s = replace_from old new 0 s"

text \<open>
  The order of \<open>str\<close> under \<open><\<close>: lexicographic on the character codes, a proper
  prefix first.
\<close>

fun str_lt :: "string \<Rightarrow> string \<Rightarrow> bool" where
  "str_lt [] [] = False"
| "str_lt [] (y # ys) = True"
| "str_lt (x # xs) [] = False"
| "str_lt (x # xs) (y # ys) =
     ((of_char x :: nat) < of_char y \<or> (x = y \<and> str_lt xs ys))"

definition str_ge :: "string \<Rightarrow> string \<Rightarrow> bool" where
  "str_ge a b = (str_lt b a \<or> a = b)"

text \<open>\<open>str(n)\<close> for an integer: decimal digits, a minus sign before a negative number.\<close>

definition digit_char :: "nat \<Rightarrow> char" where
  "digit_char d = ''0123456789'' ! d"

function digits_of :: "nat \<Rightarrow> string" where
  "digits_of n =
     (if n < 10 then [digit_char n] else digits_of (n div 10) @ [digit_char (n mod 10)])"
  by pat_completeness auto
termination
  by (relation "measure id") auto

declare digits_of.simps [simp del]

definition py_str :: "int \<Rightarrow> string" where
  "py_str i = (if i < 0 then CHR ''-'' # digits_of (nat (- i)) else digits_of (nat i))"

datatype error =
    FrameworkNotInstalled        \<comment> \<open>the ImportError of get_tf_version_integer\<close>
  | AttributeError               \<comment> \<open>tf.__version__ read where it is missing\<close>
  | MalformedVersionString       \<comment> \<open>ValueError 'got wrong tf.__version__'\<close>
  | InvalidIntLiteral            \<comment> \<open>the ValueError that int() raises\<close>
  | VersionIntegerLengthError    \<comment> \<open>ValueError 'version flag must be length of 4'\<close>
  | UnsupportedFrameworkVersion  \<comment> \<open>ValueError 'Unsupport TensorFlow version'\<close>
  | BuildToolVersionMismatch     \<comment> \<open>ValueError 'Bazel version is ..'\<close>
  | ExtractionFailed             \<comment> \<open>ValueError 'Error happened when decompressing'\<close>
  | IndexError                   \<comment> \<open>a list indexed out of range\<close>

text \<open>
  The body of a decimal literal after the sign: digits, with single underscores allowed
  between two digits. The flag says whether the previous character was a digit.
\<close>

fun literal_body :: "bool \<Rightarrow> string \<Rightarrow> bool" where
  "literal_body prev [] = prev"
| "literal_body prev (c # cs) =
     (if is_digit c then literal_body True cs
      else if c = CHR ''_'' then prev \<and> literal_body False cs
      else False)"

text \<open>
  \<open>int(s)\<close> in base 10: the white space of \<open>is_int_space\<close> around the literal is
  skipped, one sign is allowed, and anything else than a decimal literal raises
  ValueError.
\<close>

definition py_int :: "string \<Rightarrow> error + int" where
  "py_int s =
     (let t = int_strip s;
          neg = (t \<noteq> [] \<and> hd t = CHR ''-'');
          body = (if t \<noteq> [] \<and> (hd t = CHR ''-'' \<or> hd t = CHR ''+'') then tl t else t)
      in if literal_body False body
         then Inr ((if neg then - 1 else 1) * dec_val (filter (\<lambda>c. c \<noteq> CHR ''_'') body))
         else Inl InvalidIntLiteral)"

section \<open>The host, the installed framework and the environment\<close>

text \<open>
  Everything configure.py reads from outside: \<open>platform.system()\<close>,
  \<open>platform.machine()\<close>, \<open>os.uname()[4]\<close>, \<open>tf.__version__\<close> (\<open>None\<close> when the
  attribute is missing), \<open>tf.sysconfig.get_compile_flags()\<close>,
  \<open>tf.sysconfig.get_link_flags()\<close>, \<open>tf.sysconfig.CXX11_ABI_FLAG\<close>, the directory of
  the script, what \<open>bazel version | grep label\<close> prints, the exit status \<open>os.system\<close>
  returns for a command, and \<open>os.environ\<close>. (\<open>os.uname\<close> does not exist on Windows,
  but the source calls it only after \<open>is_windows()\<close> was false.)
\<close>

record world =
  system :: string
  machine :: string
  uname_machine :: string
  tf_version :: "string option"
  compile_flags :: "string list"
  link_flags :: "string list"
  cxx11_abi_flag :: int
  script_dir :: string
  bazel_label_output :: string
  os_system :: "string \<Rightarrow> int"
  environ :: "string \<Rightarrow> string option"

definition is_macos :: "'a world_scheme \<Rightarrow> bool" where
  "is_macos w = (system w = ''Darwin'')"

definition is_windows :: "'a world_scheme \<Rightarrow> bool" where
  "is_windows w = (system w = ''Windows'')"

definition is_linux :: "'a world_scheme \<Rightarrow> bool" where
  "is_linux w = (system w = ''Linux'')"

definition is_arm64 :: "'a world_scheme \<Rightarrow> bool" where
  "is_arm64 w = (machine w = ''arm64'')"

definition is_raspi_arm :: "'a world_scheme \<Rightarrow> bool" where
  "is_raspi_arm w = (uname_machine w = ''armv7l'')"

definition getenv :: "'a world_scheme \<Rightarrow> string \<Rightarrow> string \<Rightarrow> string" where
  "getenv w name dflt = (case environ w name of None \<Rightarrow> dflt | Some v \<Rightarrow> v)"

section \<open>The version integer\<close>

text \<open>
  Lines 146 to 161: the version is split at the dots; anything but three components of
  lengths 1, at most 2, and 1 ends in the ValueError of line 161 (the unpacking error and
  the three assertions are all caught by the bare \<open>except\<close>).
\<close>

definition split_version :: "string \<Rightarrow> error + (string \<times> string \<times> string)" where
  "split_version version =
     (case split_on CHR ''.'' version of
        [major, minor, patch] \<Rightarrow>
          if length major = 1 \<and> length minor \<le> 2 \<and> length patch = 1
          then Inr (major, minor, patch)
          else Inl MalformedVersionString
      | _ \<Rightarrow> Inl MalformedVersionString)"

definition get_tf_version_integer :: "'a world_scheme \<Rightarrow> error + int" where
  "get_tf_version_integer w =
     (case tf_version w of
        None \<Rightarrow> Inl FrameworkNotInstalled
      | Some version \<Rightarrow>
          (case split_version version of
             Inl e \<Rightarrow> Inl e
           | Inr (major, minor, patch) \<Rightarrow>
               (case py_int major of
                  Inl e \<Rightarrow> Inl e
                | Inr ma \<Rightarrow>
                    (case py_int minor of
                       Inl e \<Rightarrow> Inl e
                     | Inr mi \<Rightarrow>
                         (case py_int patch of
                            Inl e \<Rightarrow> Inl e
                          | Inr pa \<Rightarrow>
                              let tf_version_num = py_str (ma * 1000 + mi * 10 + pa)
                              in if length tf_version_num \<noteq> 4
                                 then Inl VersionIntegerLengthError
                                 else py_int tf_version_num)))))"

section \<open>The required Bazel version\<close>

text \<open>
  \<open>_VALID_BAZEL_VERSION\<close>, lines 29 to 50 (the leading underscore is dropped: an
  Isabelle name cannot start with one). The logging calls have no effect on the result.
\<close>

definition VALID_BAZEL_VERSION :: "'a world_scheme \<Rightarrow> string \<Rightarrow> error + string" where
  "VALID_BAZEL_VERSION w tf_ver =
     (if is_macos w \<and> is_arm64 w then Inr ''4.1.0''
      else if str_lt tf_ver ''2.0.0'' then Inr ''0.26.1''
      else if str_ge tf_ver ''2.0.0'' then Inr ''4.2.1''
      else Inl UnsupportedFrameworkVersion)"

section \<open>Paths of the installed framework\<close>

text \<open>The slice \<open>s[2:-7]\<close>: the characters from index 2 up to 7 before the end.\<close>

definition slice_2_m7 :: "string \<Rightarrow> string" where
  "slice_2_m7 s = drop 2 (take (length s - 7) s)"

definition get_tf_header_dir :: "'a world_scheme \<Rightarrow> error + string" where
  "get_tf_header_dir w =
     (case get_tf_version_integer w of
        Inl e \<Rightarrow> Inl e
      | Inr v \<Rightarrow>
          if v \<ge> 2000 then
            (case compile_flags w of
               [] \<Rightarrow> Inl IndexError
             | flag # _ \<Rightarrow>
                 let tf_header_dir = drop 2 flag
                 in Inr (if is_windows w then replace [backslash] ''/'' tf_header_dir
                         else tf_header_dir))
          else
            (case tf_version w of
               None \<Rightarrow> Inl AttributeError
             | Some version \<Rightarrow>
                 Inr (script_dir w @ ''/build_deps/tf_header/'' @ version @ ''/tensorflow'')))"

definition get_tf_shared_lib_dir :: "'a world_scheme \<Rightarrow> error + string" where
  "get_tf_shared_lib_dir w =
     (if is_windows w then
        (case compile_flags w of
           [] \<Rightarrow> Inl IndexError
         | flag # _ \<Rightarrow> Inr (replace [backslash] ''/'' (slice_2_m7 flag @ ''python'')))
      else if is_raspi_arm w then
        (case compile_flags w of
           [] \<Rightarrow> Inl IndexError
         | flag # _ \<Rightarrow> Inr (slice_2_m7 flag @ ''python''))
      else
        (case link_flags w of
           [] \<Rightarrow> Inl IndexError
         | flag # _ \<Rightarrow> Inr (drop 2 flag)))"

definition get_shared_lib_name :: "'a world_scheme \<Rightarrow> error + string" where
  "get_shared_lib_name w =
     (let namespec = link_flags w
      in if is_macos w then Inr ''libtensorflow_framework.dylib''
         else if is_windows w then Inr ''_pywrap_tensorflow_internal.lib''
         else if is_raspi_arm w then Inr ''_pywrap_tensorflow_internal.so''
         else if length namespec < 2 then Inl IndexError
         else Inr (drop 3 (namespec ! 1)))"

section \<open>Checking the installed Bazel\<close>

text \<open>
  \<open>_get_installed_and_valid_bazel_version\<close>, lines 170 to 175: the installed version
  is what follows the first colon of the label line, stripped.
\<close>

definition get_installed_and_valid_bazel_version ::
    "'a world_scheme \<Rightarrow> error + (string \<times> string)" where
  "get_installed_and_valid_bazel_version w =
     (case split_on CHR '':'' (bazel_label_output w) of
        _ # part # _ \<Rightarrow>
          (let installed_bazel_version = strip part
           in case tf_version w of
                None \<Rightarrow> Inl AttributeError
              | Some version \<Rightarrow>
                  (case VALID_BAZEL_VERSION w version of
                     Inl e \<Rightarrow> Inl e
                   | Inr valid_bazel_version \<Rightarrow>
                       Inr (installed_bazel_version, valid_bazel_version)))
      | _ \<Rightarrow> Inl IndexError)"

definition check_bazel_version :: "'a world_scheme \<Rightarrow> error + unit" where
  "check_bazel_version w =
     (case get_installed_and_valid_bazel_version w of
        Inl e \<Rightarrow> Inl e
      | Inr (installed_bazel_version, valid_bazel_version) \<Rightarrow>
          if installed_bazel_version \<noteq> valid_bazel_version
          then Inl BuildToolVersionMismatch else Inr ())"

definition check_bazel_version_for_macOS_arm64 :: "'a world_scheme \<Rightarrow> error + unit" where
  "check_bazel_version_for_macOS_arm64 w =
     (case get_installed_and_valid_bazel_version w of
        Inl e \<Rightarrow> Inl e
      | Inr (installed_bazel_version, valid_bazel_version) \<Rightarrow>
          if str_lt installed_bazel_version valid_bazel_version
          then Inl BuildToolVersionMismatch else Inr ())"

section \<open>Extracting the bundled headers\<close>

definition extract_tf_header :: "'a world_scheme \<Rightarrow> error + unit" where
  "extract_tf_header w =
     (case get_tf_header_dir w of
        Inl e \<Rightarrow> Inl e
      | Inr tf_header_dir \<Rightarrow>
          (case get_tf_version_integer w of
             Inl e \<Rightarrow> Inl e
           | Inr tf_version_integer \<Rightarrow>
               if tf_version_integer < 2000 then
                 (case tf_version w of
                    None \<Rightarrow> Inl AttributeError
                  | Some version \<Rightarrow>
                      let output_dir =
                            take (length tf_header_dir - length (version @ ''/tensorflow''))
                              tf_header_dir;
                          tar_path = replace ''/tensorflow'' ''.tar.gz'' tf_header_dir;
                          cmd = ''tar -zxvf '' @ tar_path @ '' --directory '' @ output_dir
                                @ '' >/dev/null 2>&1'';
                          ret = os_system w cmd
                      in if ret \<noteq> 0 then Inl ExtractionFailed else Inr ())
               else Inr ()))"

section \<open>The configuration file\<close>

text \<open>
  The file \<open>.bazelrc\<close> is \<open>None\<close> while it does not exist, and otherwise the list of
  the records it holds. The function \<open>write\<close> of the source opens the file for appending,
  which creates it, and appends one record: the line and a newline. It is named
  \<open>write_line\<close> here, since \<open>write\<close> is a command of Isabelle. A record is the text
  passed to one call, so a value of the environment that holds a newline stays inside
  its record. The bytes of the file are \<open>file_text\<close>. Errors of the operating system
  when the file is opened or written are not modelled.
\<close>

type_synonym bazelrc = "string list option"

definition file_text :: "string list \<Rightarrow> string" where
  "file_text ls = concat (map (\<lambda>l. l @ [CHR 0x0A]) ls)"

text \<open>
  The lines of a file, given its bytes: the pieces between the newlines, without the
  empty piece after the last newline. A record that holds a newline makes several lines.
\<close>

definition file_lines :: "string \<Rightarrow> string list" where
  "file_lines bytes =
     (let pieces = split_on (CHR 0x0A) bytes
      in if last pieces = [] then butlast pieces else pieces)"

definition newline_free :: "string \<Rightarrow> bool" where
  "newline_free s = (CHR 0x0A \<notin> set s)"

definition write_line :: "string \<Rightarrow> bazelrc \<Rightarrow> bazelrc" where
  "write_line line f = Some ((case f of None \<Rightarrow> [] | Some ls \<Rightarrow> ls) @ [line])"

definition write_action_env :: "string \<Rightarrow> string \<Rightarrow> bazelrc \<Rightarrow> bazelrc" where
  \<open>write_action_env var_name var f =
     write_line (''build --action_env '' @ var_name @ ''="'' @ var @ ''"'') f\<close>

definition configure_cuda :: "'a world_scheme \<Rightarrow> bazelrc \<Rightarrow> bazelrc" where
  "configure_cuda w f0 =
     (let f1 = write_action_env ''TF_NEED_CUDA'' ''1'' f0;
          f2 = write_action_env ''CUDA_TOOLKIT_PATH''
                 (getenv w ''CUDA_TOOLKIT_PATH'' ''/usr/local/cuda'') f1;
          f3 = write_action_env ''CUDNN_INSTALL_PATH''
                 (getenv w ''CUDNN_INSTALL_PATH'' ''/usr/lib/x86_64-linux-gnu'') f2;
          f4 = write_action_env ''TF_CUDA_VERSION'' (getenv w ''TF_CUDA_VERSION'' ''11.0'') f3;
          f5 = write_action_env ''TF_CUDNN_VERSION'' (getenv w ''TF_CUDNN_VERSION'' ''8.0'') f4;
          f6 = write_line ''test --config=cuda'' f5;
          f7 = write_line ''build --config=cuda'' f6;
          f8 = write_line ''build:cuda --define=using_cuda=true --define=using_cuda_nvcc=true'' f7
      in write_line ''build:cuda --crosstool_top=@local_config_cuda//crosstool:toolchain'' f8)"

definition configure_rocm :: "'a world_scheme \<Rightarrow> bazelrc \<Rightarrow> bazelrc" where
  "configure_rocm w f0 =
     (let f1 = write_action_env ''TF_NEED_ROCM'' ''1'' f0;
          f2 = write_action_env ''ROCM_PATH'' (getenv w ''ROCM_PATH'' ''/opt/rocm'') f1;
          f3 = write_line ''test --config=rocm'' f2;
          f4 = write_line ''build --config=rocm'' f3;
          f5 = write_line ''build:rocm --define=using_rocm_hipcc=true'' f4;
          f6 = write_line ''build:rocm --define=tensorflow_mkldnn_contraction_kernel=0'' f5;
          f7 = write_line ''build:rocm --repo_env TF_NEED_ROCM=1'' f6
      in write_line ''build:rocm --crosstool_top=@local_config_rocm//crosstool:toolchain'' f7)"

text \<open>
  \<open>create_build_configuration\<close>, lines 210 to 260. The result is the exception that
  ended the run (\<open>None\<close> when it ran to its end) and the file as the run left it. The
  three blocks after the last call that can raise are definitions of their own:
  lines 238 to 243, lines 245 to 247 and lines 249 to 256.
\<close>

definition write_windows_options :: "'a world_scheme \<Rightarrow> bazelrc \<Rightarrow> bazelrc" where
  "write_windows_options w f0 =
     (if is_windows w then
        (let f1 = write_line ''build --config=windows'' f0;
             f2 = write_line ''build:windows --enable_runfiles'' f1;
             f3 = write_line ''build:windows --copt=/experimental:preprocessor'' f2;
             f4 = write_line ''build:windows --host_copt=/experimental:preprocessor'' f3
         in write_line ''build:windows --copt=/arch=AVX'' f4)
      else f0)"

definition write_avx_option :: "'a world_scheme \<Rightarrow> bazelrc \<Rightarrow> bazelrc" where
  "write_avx_option w f0 =
     (if is_macos w \<or> is_linux w then
        (if \<not> is_arm64 w then write_line ''build --copt=-mavx'' f0 else f0)
      else f0)"

definition write_gpu_options :: "'a world_scheme \<Rightarrow> bazelrc \<Rightarrow> bazelrc" where
  "write_gpu_options w f0 =
     (if getenv w ''TF_NEED_CUDA'' ''0'' = ''1'' then configure_cuda w f0
      else if getenv w ''TF_NEED_ROCM'' ''0'' = ''1'' then configure_rocm w f0
      else f0)"

definition create_build_configuration ::
    "'a world_scheme \<Rightarrow> bazelrc \<Rightarrow> error option \<times> bazelrc" where
  "create_build_configuration w f0 =
     (let f1 = (if f0 \<noteq> None then None else f0)
      in case (if is_linux w then check_bazel_version w else Inr ()) of
           Inl e \<Rightarrow> (Some e, f1)
         | Inr _ \<Rightarrow>
       (case (if is_macos w \<and> is_arm64 w then check_bazel_version_for_macOS_arm64 w
              else Inr ()) of
           Inl e \<Rightarrow> (Some e, f1)
         | Inr _ \<Rightarrow>
       (case extract_tf_header w of
           Inl e \<Rightarrow> (Some e, f1)
         | Inr _ \<Rightarrow>
       (case get_tf_header_dir w of
           Inl e \<Rightarrow> (Some e, f1)
         | Inr tf_header_dir \<Rightarrow>
       (let f2 = write_action_env ''TF_HEADER_DIR'' tf_header_dir f1
        in case get_tf_shared_lib_dir w of
           Inl e \<Rightarrow> (Some e, f2)
         | Inr tf_shared_lib_dir \<Rightarrow>
       (let f3 = write_action_env ''TF_SHARED_LIBRARY_DIR'' tf_shared_lib_dir f2
        in case get_shared_lib_name w of
           Inl e \<Rightarrow> (Some e, f3)
         | Inr shared_lib_name \<Rightarrow>
       (let f4 = write_action_env ''TF_SHARED_LIBRARY_NAME'' shared_lib_name f3;
            f5 = write_action_env ''TF_CXX11_ABI_FLAG'' (py_str (cxx11_abi_flag w)) f4
        in case get_tf_version_integer w of
           Inl e \<Rightarrow> (Some e, f5)
         | Inr tf_version_integer \<Rightarrow>
       (let f6 = write_action_env ''TF_VERSION_INTEGER'' (py_str tf_version_integer) f5;
            f7 = write_action_env ''FOR_TF_SERVING'' (getenv w ''FOR_TF_SERVING'' ''0'') f6;
            f8 = write_line ''build --spawn_strategy=standalone'' f7;
            f9 = write_line ''build --strategy=Genrule=standalone'' f8;
            f10 = write_line ''build -c opt'' f9;
            f11 = write_windows_options w f10;
            f12 = write_avx_option w f11;
            f13 = write_gpu_options w f12
        in (None, f13)))))))))"

section \<open>Conditions on the version string, as the specification words them\<close>

text \<open>
  The version string splits at its dots into exactly three components, of lengths 1, at
  most 2, and 1. This is the condition on lengths alone.
\<close>

definition version_lengths_ok :: "string \<Rightarrow> bool" where
  "version_lengths_ok v =
     (case split_on CHR ''.'' v of
        [major, minor, patch] \<Rightarrow> length major = 1 \<and> length minor \<le> 2 \<and> length patch = 1
      | _ \<Rightarrow> False)"

text \<open>
  The same condition with every component made of decimal digits: major exactly one
  digit, minor at most two digits, patch exactly one digit.
\<close>

definition version_digits_ok :: "string \<Rightarrow> bool" where
  "version_digits_ok v =
     (case split_on CHR ''.'' v of
        [major, minor, patch] \<Rightarrow>
          length major = 1 \<and> list_all is_digit major \<and>
          length minor \<le> 2 \<and> list_all is_digit minor \<and>
          length patch = 1 \<and> list_all is_digit patch
      | _ \<Rightarrow> False)"

section \<open>The directive lines, as the specification words them\<close>

text \<open>The line \<open>build --action_env VAR="VALUE"\<close>.\<close>

definition action_env_line :: "string \<Rightarrow> string \<Rightarrow> string" where
  \<open>action_env_line var val = ''build --action_env '' @ var @ ''="'' @ val @ ''"''\<close>

text \<open>
  The three forms of a line that the specification lists. A text has the form
  \<open>VAR="VALUE"\<close> when an equals sign in it is followed by a double quote and the text
  ends with another double quote.
\<close>

fun assignment_form :: "string \<Rightarrow> bool" where
  "assignment_form [] = False"
| "assignment_form (c # cs) =
     ((c = CHR ''='' \<and> 2 \<le> length cs \<and> hd cs = dq \<and> last cs = dq) \<or> assignment_form cs)"

definition is_action_env_line :: "string \<Rightarrow> bool" where
  "is_action_env_line l =
     (starts_with ''build --action_env '' l
      \<and> assignment_form (drop (length ''build --action_env '') l))"

text \<open>\<open>build <flag>\<close>: the word \<open>build\<close>, a space, and a flag, which starts with a dash.\<close>

definition is_build_flag_line :: "string \<Rightarrow> bool" where
  "is_build_flag_line l = starts_with ''build -'' l"

text \<open>
  \<open>build:<config> <flag>\<close>: the name of the configuration is not empty and has no
  space, and the flag starts with a dash.
\<close>

definition is_build_config_line :: "string \<Rightarrow> bool" where
  "is_build_config_line l =
     (starts_with ''build:'' l
      \<and> (let r = drop (length ''build:'') l
         in takeWhile (\<lambda>c. c \<noteq> CHR '' '') r \<noteq> []
            \<and> starts_with '' -'' (dropWhile (\<lambda>c. c \<noteq> CHR '' '') r)))"

definition documented_form :: "string \<Rightarrow> bool" where
  "documented_form l = (is_action_env_line l \<or> is_build_flag_line l \<or> is_build_config_line l)"

text \<open>
  A CUDA directive is a line of the kind \<open>configure_cuda\<close> writes: one of its five
  variables, the selection of the \<open>cuda\<close> configuration, or a flag of that
  configuration. A ROCm directive is the same for \<open>configure_rocm\<close>.
\<close>

definition is_cuda_directive :: "string \<Rightarrow> bool" where
  "is_cuda_directive l =
     (list_ex (\<lambda>p. starts_with p l)
        [''build --action_env TF_NEED_CUDA='', ''build --action_env CUDA_TOOLKIT_PATH='',
         ''build --action_env CUDNN_INSTALL_PATH='', ''build --action_env TF_CUDA_VERSION='',
         ''build --action_env TF_CUDNN_VERSION='', ''build:cuda '']
      \<or> l = ''test --config=cuda'' \<or> l = ''build --config=cuda'')"

definition is_rocm_directive :: "string \<Rightarrow> bool" where
  "is_rocm_directive l =
     (list_ex (\<lambda>p. starts_with p l)
        [''build --action_env TF_NEED_ROCM='', ''build --action_env ROCM_PATH='',
         ''build:rocm '']
      \<or> l = ''test --config=rocm'' \<or> l = ''build --config=rocm'')"

text \<open>
  The whole sequence of directives of a run, in the order of the specification: the six
  environment directives, the three build-strategy directives, the Windows directives,
  the AVX directive of macOS and Linux, and the block of the GPU backend.
\<close>

definition spec_cuda_block :: "'a world_scheme \<Rightarrow> string list" where
  "spec_cuda_block w =
     [action_env_line ''TF_NEED_CUDA'' ''1'',
      action_env_line ''CUDA_TOOLKIT_PATH'' (getenv w ''CUDA_TOOLKIT_PATH'' ''/usr/local/cuda''),
      action_env_line ''CUDNN_INSTALL_PATH''
        (getenv w ''CUDNN_INSTALL_PATH'' ''/usr/lib/x86_64-linux-gnu''),
      action_env_line ''TF_CUDA_VERSION'' (getenv w ''TF_CUDA_VERSION'' ''11.0''),
      action_env_line ''TF_CUDNN_VERSION'' (getenv w ''TF_CUDNN_VERSION'' ''8.0''),
      ''test --config=cuda'',
      ''build --config=cuda'',
      ''build:cuda --define=using_cuda=true --define=using_cuda_nvcc=true'',
      ''build:cuda --crosstool_top=@local_config_cuda//crosstool:toolchain'']"

definition spec_rocm_block :: "'a world_scheme \<Rightarrow> string list" where
  "spec_rocm_block w =
     [action_env_line ''TF_NEED_ROCM'' ''1'',
      action_env_line ''ROCM_PATH'' (getenv w ''ROCM_PATH'' ''/opt/rocm''),
      ''test --config=rocm'',
      ''build --config=rocm'',
      ''build:rocm --define=using_rocm_hipcc=true'',
      ''build:rocm --define=tensorflow_mkldnn_contraction_kernel=0'',
      ''build:rocm --repo_env TF_NEED_ROCM=1'',
      ''build:rocm --crosstool_top=@local_config_rocm//crosstool:toolchain'']"

definition spec_base_directives ::
    "'a world_scheme \<Rightarrow> string \<Rightarrow> string \<Rightarrow> string \<Rightarrow> int \<Rightarrow> string list" where
  "spec_base_directives w hdr libdir libname ver =
     [action_env_line ''TF_HEADER_DIR'' hdr,
      action_env_line ''TF_SHARED_LIBRARY_DIR'' libdir,
      action_env_line ''TF_SHARED_LIBRARY_NAME'' libname,
      action_env_line ''TF_CXX11_ABI_FLAG'' (py_str (cxx11_abi_flag w)),
      action_env_line ''TF_VERSION_INTEGER'' (py_str ver),
      action_env_line ''FOR_TF_SERVING'' (getenv w ''FOR_TF_SERVING'' ''0''),
      ''build --spawn_strategy=standalone'',
      ''build --strategy=Genrule=standalone'',
      ''build -c opt'']"

definition spec_platform_directives :: "'a world_scheme \<Rightarrow> string list" where
  "spec_platform_directives w =
     (if is_windows w
      then [''build --config=windows'',
            ''build:windows --enable_runfiles'',
            ''build:windows --copt=/experimental:preprocessor'',
            ''build:windows --host_copt=/experimental:preprocessor'',
            ''build:windows --copt=/arch=AVX'']
      else [])
     @ (if (is_macos w \<or> is_linux w) \<and> \<not> is_arm64 w then [''build --copt=-mavx''] else [])"

definition spec_gpu_directives :: "'a world_scheme \<Rightarrow> string list" where
  "spec_gpu_directives w =
     (if getenv w ''TF_NEED_CUDA'' ''0'' = ''1'' then spec_cuda_block w
      else if getenv w ''TF_NEED_ROCM'' ''0'' = ''1'' then spec_rocm_block w
      else [])"

definition spec_full_directives ::
    "'a world_scheme \<Rightarrow> string \<Rightarrow> string \<Rightarrow> string \<Rightarrow> int \<Rightarrow> string list" where
  "spec_full_directives w hdr libdir libname ver =
     spec_base_directives w hdr libdir libname ver
     @ spec_platform_directives w @ spec_gpu_directives w"

text \<open>
  The validation of a run: the check of Bazel on Linux, the check of Bazel on macOS with
  an arm64 processor, and the extraction of the headers, in this order; the result is
  the first error, if any.
\<close>

definition validation :: "'a world_scheme \<Rightarrow> error option" where
  "validation w =
     (case (if is_linux w then check_bazel_version w else Inr ()) of
        Inl e \<Rightarrow> Some e
      | Inr _ \<Rightarrow>
          (case (if is_macos w \<and> is_arm64 w then check_bazel_version_for_macOS_arm64 w
                 else Inr ()) of
             Inl e \<Rightarrow> Some e
           | Inr _ \<Rightarrow>
               (case extract_tf_header w of
                  Inl e \<Rightarrow> Some e
                | Inr _ \<Rightarrow> None)))"

text \<open>
  The values a run writes into the file that come from outside: the header directory,
  the directory and the name of the shared library, the value of \<open>FOR_TF_SERVING\<close>,
  and the values of the variables of the GPU block that is selected.
\<close>

definition written_values :: "'a world_scheme \<Rightarrow> string list" where
  "written_values w =
     (case get_tf_header_dir w of Inl e \<Rightarrow> [] | Inr v \<Rightarrow> [v])
     @ (case get_tf_shared_lib_dir w of Inl e \<Rightarrow> [] | Inr v \<Rightarrow> [v])
     @ (case get_shared_lib_name w of Inl e \<Rightarrow> [] | Inr v \<Rightarrow> [v])
     @ [getenv w ''FOR_TF_SERVING'' ''0'']
     @ (if getenv w ''TF_NEED_CUDA'' ''0'' = ''1''
        then [getenv w ''CUDA_TOOLKIT_PATH'' ''/usr/local/cuda'',
              getenv w ''CUDNN_INSTALL_PATH'' ''/usr/lib/x86_64-linux-gnu'',
              getenv w ''TF_CUDA_VERSION'' ''11.0'',
              getenv w ''TF_CUDNN_VERSION'' ''8.0'']
        else if getenv w ''TF_NEED_ROCM'' ''0'' = ''1''
        then [getenv w ''ROCM_PATH'' ''/opt/rocm'']
        else [])"

section \<open>AVX directives\<close>

text \<open>\<open>p in s\<close>: the text \<open>p\<close> occurs somewhere in \<open>s\<close>.\<close>

fun contains_str :: "string \<Rightarrow> string \<Rightarrow> bool" where
  "contains_str p [] = (p = [])"
| "contains_str p (c # cs) = (starts_with p (c # cs) \<or> contains_str p cs)"

text \<open>
  An AVX code-generation directive under a build configuration: a line of that
  configuration (\<open>build\<close> for the default one, \<open>build:windows\<close> for the Windows one)
  that passes to the compiler an option naming AVX.
\<close>

definition is_avx_directive_under :: "string \<Rightarrow> string \<Rightarrow> bool" where
  "is_avx_directive_under cfg l =
     (starts_with (cfg @ '' --copt='') l \<and> (contains_str ''avx'' l \<or> contains_str ''AVX'' l))"

section \<open>Example hosts\<close>

text \<open>
  A Linux machine with TensorFlow 2.5.1 and Bazel 4.2.1, no variable set in the
  environment; the other examples are variations of it.
\<close>

definition linux_host :: world where
  "linux_host =
     \<lparr>system = ''Linux'', machine = ''x86_64'', uname_machine = ''x86_64'',
      tf_version = Some ''2.5.1'',
      compile_flags = [''-I/usr/lib/tf/include'', ''-D_GLIBCXX_USE_CXX11_ABI=0''],
      link_flags = [''-L/usr/lib/tf'', ''-l:libtensorflow_framework.so.2''],
      cxx11_abi_flag = 0,
      script_dir = ''/src'',
      bazel_label_output = ''Build label: 4.2.1'' @ [CHR 0x0A],
      os_system = (\<lambda>cmd. 0),
      environ = (\<lambda>name. None)\<rparr>"

definition windows_host :: world where
  "windows_host =
     linux_host\<lparr>system := ''Windows'', machine := ''AMD64'',
       compile_flags := [''-IC:/tf/include''],
       bazel_label_output := ''Build label: 3.0.0'' @ [CHR 0x0A]\<rparr>"

definition macos_arm64_host :: world where
  "macos_arm64_host =
     linux_host\<lparr>system := ''Darwin'', machine := ''arm64'', uname_machine := ''arm64'',
       bazel_label_output := ''Build label: 5.0.0'' @ [CHR 0x0A]\<rparr>"

text \<open>Both GPU backends requested, and no CUDA version given.\<close>

definition cuda_host :: world where
  "cuda_host = linux_host\<lparr>environ := [''TF_NEED_CUDA'' \<mapsto> ''1'', ''TF_NEED_ROCM'' \<mapsto> ''1'']\<rparr>"


text \<open>Linux and macOS (arm64) with a Bazel older than the required one.\<close>

definition linux_old_bazel :: world where
  "linux_old_bazel = linux_host\<lparr>bazel_label_output := ''Build label: 3.0.0'' @ [CHR 0x0A]\<rparr>"


text \<open>TensorFlow 1.15.2 with its Bazel, where the tar command fails.\<close>

definition legacy_host :: world where
  "legacy_host =
     linux_host\<lparr>tf_version := Some ''1.15.2'',
       bazel_label_output := ''Build label: 0.26.1'' @ [CHR 0x0A],
       os_system := (\<lambda>cmd. 1)\<rparr>"

text \<open>Link flags without the library entry: the third query of the run raises.\<close>

definition short_link_flags_host :: world where
  "short_link_flags_host = linux_host\<lparr>link_flags := [''-L/usr/lib/tf'']\<rparr>"

text \<open>CUDA requested, and a value of \<open>FOR_TF_SERVING\<close> of two lines, \<open>a\<close> and \<open>b\<close>.\<close>

definition newline_cuda_host :: world where
  "newline_cuda_host =
     linux_host\<lparr>environ := [''TF_NEED_CUDA'' \<mapsto> ''1'',
                            ''FOR_TF_SERVING'' \<mapsto> ''a'' @ [CHR 0x0A] @ ''b'']\<rparr>"

text \<open>
  No GPU backend requested, and a value of \<open>FOR_TF_SERVING\<close> whose second line is
  \<open>build --config=cuda\<close>, followed by a newline.
\<close>

definition injected_host :: world where
  "injected_host =
     linux_host\<lparr>environ :=
       [''FOR_TF_SERVING'' \<mapsto> ''0'' @ [CHR 0x0A] @ ''build --config=cuda'' @ [CHR 0x0A]]\<rparr>"

section \<open>Facts about the string and integer conversions\<close>

lemma digits_of_small: "n < 10 \<Longrightarrow> digits_of n = [digit_char n]"
  by (simp add: digits_of.simps)

lemma digits_of_big:
  "10 \<le> n \<Longrightarrow> digits_of n = digits_of (n div 10) @ [digit_char (n mod 10)]"
  by (subst digits_of.simps) simp

lemma below_ten_cases:
  "d < 10 \<Longrightarrow> d = 0 \<or> d = 1 \<or> d = 2 \<or> d = 3 \<or> d = 4 \<or> d = 5 \<or> d = 6 \<or> d = 7 \<or> d = 8 \<or> d = (9::nat)"
  by arith

lemma is_digit_digit_char: "d < 10 \<Longrightarrow> is_digit (digit_char d)"
  using below_ten_cases [of d] by (auto simp: digit_char_def is_digit_def)

lemma digit_val_digit_char: "d < 10 \<Longrightarrow> digit_val (digit_char d) = int d"
  using below_ten_cases [of d] by (auto simp: digit_char_def digit_val_def)

lemma digits_of_digits: "list_all is_digit (digits_of n) \<and> digits_of n \<noteq> []"
proof (induction n rule: digits_of.induct)
  case (1 n)
  show ?case
  proof (cases "n < 10")
    case True
    then show ?thesis by (simp add: digits_of_small is_digit_digit_char)
  next
    case False
    then have "list_all is_digit (digits_of (n div 10))" using 1 by simp
    then show ?thesis using False by (simp add: digits_of_big is_digit_digit_char)
  qed
qed

lemma dec_val_snoc: "dec_val (ds @ [c]) = 10 * dec_val ds + digit_val c"
  by (simp add: dec_val_def)

lemma dec_val_digits_of: "dec_val (digits_of n) = int n"
proof (induction n rule: digits_of.induct)
  case (1 n)
  show ?case
  proof (cases "n < 10")
    case True
    then show ?thesis by (simp add: digits_of_small dec_val_def digit_val_digit_char)
  next
    case False
    then have "dec_val (digits_of (n div 10)) = int (n div 10)" using 1 by simp
    then show ?thesis using False
      by (simp add: digits_of_big dec_val_snoc digit_val_digit_char zdiv_int zmod_int)
  qed
qed

lemma length_digits_of_1: "n < 10 \<Longrightarrow> length (digits_of n) = 1"
  by (simp add: digits_of_small)

lemma length_digits_of_step: "10 \<le> n \<Longrightarrow> length (digits_of n) = Suc (length (digits_of (n div 10)))"
  by (subst digits_of_big) simp_all

lemma length_digits_of_2: "10 \<le> n \<Longrightarrow> n < 100 \<Longrightarrow> length (digits_of n) = 2"
proof -
  assume a: "10 \<le> n" "n < 100"
  then have "n div 10 < 10" by arith
  then show ?thesis using a by (simp add: length_digits_of_step length_digits_of_1)
qed

lemma length_digits_of_3: "100 \<le> n \<Longrightarrow> n < 1000 \<Longrightarrow> length (digits_of n) = 3"
proof -
  assume a: "100 \<le> n" "n < 1000"
  then have "10 \<le> n div 10 \<and> n div 10 < 100" by arith
  then show ?thesis using a by (simp add: length_digits_of_step [of n] length_digits_of_2)
qed

lemma length_digits_of_4: "1000 \<le> n \<Longrightarrow> n < 10000 \<Longrightarrow> length (digits_of n) = 4"
proof -
  assume a: "1000 \<le> n" "n < 10000"
  then have "100 \<le> n div 10 \<and> n div 10 < 1000" by arith
  then show ?thesis using a by (simp add: length_digits_of_step [of n] length_digits_of_3)
qed

lemma length_digits_of_ge5: "10000 \<le> n \<Longrightarrow> 5 \<le> length (digits_of n)"
proof -
  assume a: "10000 \<le> n"
  have m: "\<And>k. 10 \<le> k \<Longrightarrow> Suc (length (digits_of (k div 10))) = length (digits_of k)"
    by (simp add: length_digits_of_step)
  have "1 \<le> length (digits_of (n div 10 div 10 div 10 div 10))"
    using digits_of_digits [of "n div 10 div 10 div 10 div 10"]
    by (cases "digits_of (n div 10 div 10 div 10 div 10)") auto
  moreover have "length (digits_of n) = Suc (Suc (Suc (Suc (length (digits_of (n div 10 div 10 div 10 div 10))))))"
  proof -
    have "10 \<le> n" "10 \<le> n div 10" "10 \<le> n div 10 div 10" "10 \<le> n div 10 div 10 div 10"
      using a by arith+
    then show ?thesis
      using length_digits_of_step [of n] length_digits_of_step [of "n div 10"]
        length_digits_of_step [of "n div 10 div 10"] length_digits_of_step [of "n div 10 div 10 div 10"]
      by simp
  qed
  ultimately show ?thesis by simp
qed

lemma length_py_str_4: "1000 \<le> i \<Longrightarrow> i \<le> 9999 \<Longrightarrow> length (py_str i) = 4"
  by (simp add: py_str_def length_digits_of_4)

lemma is_digit_not_int_space: "is_digit c \<Longrightarrow> \<not> is_int_space c"
  by (auto simp: is_digit_def is_int_space_def)

lemma is_digit_not_sign: "is_digit c \<Longrightarrow> c \<noteq> CHR ''-'' \<and> c \<noteq> CHR ''+'' \<and> c \<noteq> CHR ''_'' \<and> c \<noteq> CHR ''.''"
  by (auto simp: is_digit_def)

lemma dropWhile_hd: "xs \<noteq> [] \<Longrightarrow> \<not> P (hd xs) \<Longrightarrow> dropWhile P xs = xs"
  by (cases xs) auto

lemma int_strip_digits: "ds \<noteq> [] \<Longrightarrow> list_all is_digit ds \<Longrightarrow> int_strip ds = ds"
proof -
  assume ne: "ds \<noteq> []" and dig: "list_all is_digit ds"
  have h: "\<not> is_int_space (hd ds)" using ne dig by (cases ds) (auto simp: is_digit_not_int_space)
  have l: "\<not> is_int_space (hd (rev ds))" using ne dig
    by (simp add: hd_rev list_all_iff is_digit_not_int_space)
  show ?thesis using ne h l by (simp add: int_strip_def dropWhile_hd)
qed

lemma literal_body_digits: "list_all is_digit ds \<Longrightarrow> literal_body prev ds = (prev \<or> ds \<noteq> [])"
  by (induction ds arbitrary: prev) auto

lemma filter_digits: "list_all is_digit ds \<Longrightarrow> filter (\<lambda>c. c \<noteq> CHR ''_'') ds = ds"
  by (induction ds) (auto simp: is_digit_not_sign)

lemma py_int_digits:
  assumes "ds \<noteq> []" "list_all is_digit ds"
  shows "py_int ds = Inr (dec_val ds)"
proof -
  have "hd ds \<noteq> CHR ''-'' \<and> hd ds \<noteq> CHR ''+''"
    using assms by (cases ds) (auto simp: is_digit_not_sign)
  then show ?thesis using assms
    by (simp add: py_int_def int_strip_digits literal_body_digits filter_digits)
qed

lemma py_int_minus_digits:
  assumes "ds \<noteq> []" "list_all is_digit ds"
  shows "py_int (CHR ''-'' # ds) = Inr (- dec_val ds)"
proof -
  have "\<not> is_int_space (last ds)" using assms by (simp add: list_all_iff is_digit_not_int_space)
  then have "int_strip (CHR ''-'' # ds) = CHR ''-'' # ds"
    using assms by (simp add: int_strip_def is_int_space_def dropWhile_hd hd_rev hd_append)
  then show ?thesis using assms
    by (simp add: py_int_def literal_body_digits filter_digits)
qed

lemma py_int_py_str: "py_int (py_str i) = Inr i"
  using digits_of_digits [of "nat i"] digits_of_digits [of "nat (- i)"]
  by (simp add: py_str_def py_int_digits py_int_minus_digits dec_val_digits_of)

lemma split_on_no_sep: "sep \<notin> set a \<Longrightarrow> split_on sep a = [a]"
  by (induction a) auto

lemma split_on_append:
  "sep \<notin> set a \<Longrightarrow> split_on sep (a @ sep # r) = a # split_on sep r"
  by (induction a) auto

lemma digit_val_range: "is_digit c \<Longrightarrow> 0 \<le> digit_val c \<and> digit_val c \<le> 9"
  by (auto simp: is_digit_def digit_val_def)

lemma digit_val_pos: "is_digit c \<Longrightarrow> c \<noteq> CHR ''0'' \<Longrightarrow> 1 \<le> digit_val c"
  by (auto simp: is_digit_def digit_val_def)

lemma dec_val_range:
  assumes "length ds \<le> 2" "list_all is_digit ds"
  shows "0 \<le> dec_val ds \<and> dec_val ds \<le> 99"
proof -
  consider "ds = []" | a where "ds = [a]" | a b where "ds = [a, b]"
    using assms(1) by (cases ds; cases "tl ds"; cases "tl (tl ds)") auto
  then show ?thesis
  proof cases
    case 1
    then show ?thesis by (simp add: dec_val_def)
  next
    case 2
    then show ?thesis using digit_val_range [of a] assms(2) by (simp add: dec_val_def)
  next
    case 3
    then show ?thesis using digit_val_range [of a] digit_val_range [of b] assms(2)
      by (simp add: dec_val_def)
  qed
qed

lemma split_version_digits:
  assumes "is_digit M" "list_all is_digit mm" "length mm \<le> 2" "is_digit p"
  shows "split_version ([M] @ ''.'' @ mm @ ''.'' @ [p]) = Inr ([M], mm, [p])"
proof -
  have d: "CHR ''.'' \<notin> set mm"
    using assms(2) is_digit_not_sign by (fastforce simp: list_all_iff)
  have dM: "CHR ''.'' \<notin> set [M]" and dp: "CHR ''.'' \<notin> set [p]"
    using assms(1,4) is_digit_not_sign by auto
  have "split_on CHR ''.'' ([M] @ CHR ''.'' # (mm @ CHR ''.'' # [p]))
          = [M] # split_on CHR ''.'' (mm @ CHR ''.'' # [p])"
    using dM by (rule split_on_append)
  also have "split_on CHR ''.'' (mm @ CHR ''.'' # [p]) = mm # split_on CHR ''.'' [p]"
    using d by (rule split_on_append)
  also have "split_on CHR ''.'' [p] = [[p]]"
    using dp by (rule split_on_no_sep)
  finally have "split_on CHR ''.'' ([M] @ ''.'' @ mm @ ''.'' @ [p]) = [[M], mm, [p]]"
    by simp
  then show ?thesis using assms(3) by (simp add: split_version_def)
qed

lemma get_tf_version_integer_parts:
  assumes "tf_version w = Some v" "split_version v = Inr (a, b, c)"
    "py_int a = Inr x" "py_int b = Inr y" "py_int c = Inr z"
  shows "get_tf_version_integer w =
           (if length (py_str (x * 1000 + y * 10 + z)) \<noteq> 4 then Inl VersionIntegerLengthError
            else Inr (x * 1000 + y * 10 + z))"
  using assms by (simp add: get_tf_version_integer_def py_int_py_str)

lemma split_on_not_Nil: "split_on sep v \<noteq> []"
  by (induction v) (auto split: list.splits)

lemma split_on_shape:
  "split_on sep v = w # ws \<Longrightarrow>
     sep \<notin> set w \<and> (if ws = [] then v = w else \<exists>r. v = w @ sep # r \<and> split_on sep r = ws)"
proof (induction v arbitrary: w ws)
  case Nil
  then show ?case by auto
next
  case (Cons c cs)
  show ?case
  proof (cases "c = sep")
    case True
    then show ?thesis using Cons.prems by (cases cs) (auto split: if_splits list.splits)
  next
    case False
    then obtain w' ws' where s: "split_on sep cs = w' # ws'" and w: "w = c # w'" and ws: "ws = ws'"
      using Cons.prems split_on_not_Nil [of sep cs] by (auto split: list.splits)
    from Cons.IH [OF s] show ?thesis using False w ws by auto
  qed
qed

lemma split_on_three_iff:
  "split_on sep v = [a, b, c] \<longleftrightarrow>
     v = a @ sep # b @ sep # c \<and> sep \<notin> set a \<and> sep \<notin> set b \<and> sep \<notin> set c"
proof
  assume h: "split_on sep v = [a, b, c]"
  from split_on_shape [OF h] obtain r where
    a: "sep \<notin> set a" and v: "v = a @ sep # r" and r: "split_on sep r = [b, c]" by auto
  from split_on_shape [OF r] obtain r' where
    b: "sep \<notin> set b" and r2: "r = b @ sep # r'" and r': "split_on sep r' = [c]" by auto
  from split_on_shape [OF r'] have "sep \<notin> set c" "r' = c" by auto
  then show "v = a @ sep # b @ sep # c \<and> sep \<notin> set a \<and> sep \<notin> set b \<and> sep \<notin> set c"
    using a b v r2 by simp
next
  assume "v = a @ sep # b @ sep # c \<and> sep \<notin> set a \<and> sep \<notin> set b \<and> sep \<notin> set c"
  then show "split_on sep v = [a, b, c]"
    by (simp add: split_on_append split_on_no_sep)
qed

lemma version_lengths_ok_iff:
  "version_lengths_ok v \<longleftrightarrow>
     (\<exists>a b c. v = a @ ''.'' @ b @ ''.'' @ c
        \<and> CHR ''.'' \<notin> set a \<and> CHR ''.'' \<notin> set b \<and> CHR ''.'' \<notin> set c
        \<and> length a = 1 \<and> length b \<le> 2 \<and> length c = 1)"
proof
  assume "version_lengths_ok v"
  then obtain a b c where "split_on CHR ''.'' v = [a, b, c]"
      "length a = 1" "length b \<le> 2" "length c = 1"
    by (auto simp: version_lengths_ok_def split: list.splits)
  then show "\<exists>a b c. v = a @ ''.'' @ b @ ''.'' @ c
        \<and> CHR ''.'' \<notin> set a \<and> CHR ''.'' \<notin> set b \<and> CHR ''.'' \<notin> set c
        \<and> length a = 1 \<and> length b \<le> 2 \<and> length c = 1"
    using split_on_three_iff [of "CHR ''.''" v a b c] by auto
next
  assume "\<exists>a b c. v = a @ ''.'' @ b @ ''.'' @ c
        \<and> CHR ''.'' \<notin> set a \<and> CHR ''.'' \<notin> set b \<and> CHR ''.'' \<notin> set c
        \<and> length a = 1 \<and> length b \<le> 2 \<and> length c = 1"
  then obtain a b c where h: "v = a @ CHR ''.'' # b @ CHR ''.'' # c"
        "CHR ''.'' \<notin> set a" "CHR ''.'' \<notin> set b" "CHR ''.'' \<notin> set c"
        "length a = 1" "length b \<le> 2" "length c = 1" by auto
  then have "split_on CHR ''.'' v = [a, b, c]"
    using split_on_three_iff [of "CHR ''.''" v a b c] by simp
  then show "version_lengths_ok v" using h(5-7) by (simp add: version_lengths_ok_def)
qed

lemma split_version_Inl: "\<not> version_lengths_ok v \<Longrightarrow> split_version v = Inl MalformedVersionString"
  by (auto simp: version_lengths_ok_def split_version_def split: list.splits)

lemma split_version_Inr:
  "version_lengths_ok v \<Longrightarrow> \<exists>a b c. split_version v = Inr (a, b, c)"
  by (auto simp: version_lengths_ok_def split_version_def split: list.splits)

lemma py_int_error: "py_int s = Inl e \<Longrightarrow> e = InvalidIntLiteral"
  by (auto simp: py_int_def Let_def split: if_splits)

lemma get_tf_version_integer_after_split:
  assumes "tf_version w = Some v" "split_version v = Inr (a, b, c)"
  shows "get_tf_version_integer w \<noteq> Inl MalformedVersionString"
  using assms py_int_error
  by (auto simp: get_tf_version_integer_def py_int_py_str Let_def split: sum.splits if_splits)

lemma of_char_less_total: "\<not> (of_char x :: nat) < of_char y \<Longrightarrow> x \<noteq> y \<Longrightarrow> (of_char y :: nat) < of_char x"
  by (metis linorder_neqE_nat of_char_eq_iff)

lemma str_lt_total: "\<not> str_lt a b \<Longrightarrow> str_ge a b"
proof (induction a b rule: str_lt.induct)
  case (4 x xs y ys)
  then show ?case using of_char_less_total [of x y] by (auto simp: str_ge_def)
qed (auto simp: str_ge_def)

lemma str_lt_lexord:
  "str_lt a b \<longleftrightarrow> (a, b) \<in> lexord {(x, y). (of_char x :: nat) < of_char y}"
  by (induction a b rule: str_lt.induct) auto

section \<open>Facts about the run\<close>

lemma write_line_None: "write_line l None = Some [l]"
  by (simp add: write_line_def)

lemma write_line_Some: "write_line l (Some ls) = Some (ls @ [l])"
  by (simp add: write_line_def)

lemma write_action_env_eq: "write_action_env var val f = write_line (action_env_line var val) f"
  by (simp add: write_action_env_def action_env_line_def)

lemma configure_cuda_Some: "configure_cuda w (Some ls) = Some (ls @ spec_cuda_block w)"
  by (simp add: configure_cuda_def spec_cuda_block_def write_action_env_eq write_line_Some)

lemma configure_rocm_Some: "configure_rocm w (Some ls) = Some (ls @ spec_rocm_block w)"
  by (simp add: configure_rocm_def spec_rocm_block_def write_action_env_eq write_line_Some)

lemma write_gpu_options_Some:
  "write_gpu_options w (Some ls) = Some (ls @ spec_gpu_directives w)"
  by (simp add: write_gpu_options_def spec_gpu_directives_def configure_cuda_Some
      configure_rocm_Some)

lemma write_platform_options_Some:
  "write_avx_option w (write_windows_options w (Some ls)) = Some (ls @ spec_platform_directives w)"
  by (simp add: write_avx_option_def write_windows_options_def spec_platform_directives_def
      write_line_Some)

lemma create_build_configuration_cases:
  "create_build_configuration w f =
     (case validation w of
        Some e \<Rightarrow> (Some e, None)
      | None \<Rightarrow>
     (case get_tf_header_dir w of
        Inl e \<Rightarrow> (Some e, None)
      | Inr hdr \<Rightarrow>
     (case get_tf_shared_lib_dir w of
        Inl e \<Rightarrow> (Some e, Some [action_env_line ''TF_HEADER_DIR'' hdr])
      | Inr libdir \<Rightarrow>
     (case get_shared_lib_name w of
        Inl e \<Rightarrow> (Some e, Some [action_env_line ''TF_HEADER_DIR'' hdr,
                                  action_env_line ''TF_SHARED_LIBRARY_DIR'' libdir])
      | Inr libname \<Rightarrow>
     (case get_tf_version_integer w of
        Inl e \<Rightarrow> (Some e, Some [action_env_line ''TF_HEADER_DIR'' hdr,
                                  action_env_line ''TF_SHARED_LIBRARY_DIR'' libdir,
                                  action_env_line ''TF_SHARED_LIBRARY_NAME'' libname,
                                  action_env_line ''TF_CXX11_ABI_FLAG'' (py_str (cxx11_abi_flag w))])
      | Inr ver \<Rightarrow> (None, Some (spec_full_directives w hdr libdir libname ver)))))))"
  by (simp add: create_build_configuration_def validation_def Let_def write_action_env_eq
      write_line_None write_line_Some write_gpu_options_Some write_platform_options_Some
      spec_full_directives_def spec_base_directives_def
      split: sum.splits)

lemma create_build_configuration_initial:
  "create_build_configuration w f = create_build_configuration w g"
  by (simp only: create_build_configuration_cases)

lemma validation_passed:
  assumes "validation w = None"
  shows "\<exists>hdr ver. get_tf_header_dir w = Inr hdr \<and> get_tf_version_integer w = Inr ver"
proof -
  have "\<exists>u. extract_tf_header w = Inr u"
    using assms by (auto simp: validation_def split: sum.splits if_splits)
  then show ?thesis
    by (auto simp: extract_tf_header_def split: sum.splits)
qed

lemma create_build_configuration_success:
  assumes "create_build_configuration w f = (None, file)"
  shows "\<exists>hdr libdir libname ver.
           validation w = None \<and> get_tf_header_dir w = Inr hdr
           \<and> get_tf_shared_lib_dir w = Inr libdir \<and> get_shared_lib_name w = Inr libname
           \<and> get_tf_version_integer w = Inr ver
           \<and> file = Some (spec_full_directives w hdr libdir libname ver)"
  using assms unfolding create_build_configuration_cases
  by (auto split: option.splits sum.splits)

lemma create_build_configuration_failure:
  assumes "create_build_configuration w f = (Some e, file)"
  shows "(validation w = Some e \<and> file = None)
       \<or> (validation w = None \<and>
            (\<exists>hdr. get_tf_header_dir w = Inr hdr \<and> get_tf_shared_lib_dir w = Inl e
                   \<and> file = Some [action_env_line ''TF_HEADER_DIR'' hdr]))
       \<or> (validation w = None \<and>
            (\<exists>hdr libdir. get_tf_header_dir w = Inr hdr \<and> get_tf_shared_lib_dir w = Inr libdir
                   \<and> get_shared_lib_name w = Inl e
                   \<and> file = Some [action_env_line ''TF_HEADER_DIR'' hdr,
                                   action_env_line ''TF_SHARED_LIBRARY_DIR'' libdir]))"
proof (cases "validation w")
  case (Some e')
  then show ?thesis using assms unfolding create_build_configuration_cases by auto
next
  case None
  then obtain hdr ver where "get_tf_header_dir w = Inr hdr" "get_tf_version_integer w = Inr ver"
    using validation_passed by blast
  then show ?thesis using assms None unfolding create_build_configuration_cases
    by (auto split: sum.splits)
qed

lemma assignment_form_append: \<open>assignment_form (var @ ''="'' @ val @ ''"'')\<close>
  by (induction var) (simp_all add: dq_def)

lemma is_action_env_line_action_env_line: "is_action_env_line (action_env_line var val)"
  using assignment_form_append [of var val]
  by (simp add: is_action_env_line_def action_env_line_def starts_with_def)

lemma test_line_not_documented:
  "\<not> documented_form ''test --config=cuda''" "\<not> documented_form ''test --config=rocm''"
  by (simp_all add: documented_form_def is_action_env_line_def is_build_flag_line_def
      is_build_config_line_def starts_with_def)

lemma getenv_eq_iff: "dflt \<noteq> v \<Longrightarrow> (getenv w name dflt = v) = (environ w name = Some v)"
  by (auto simp: getenv_def split: option.splits)

lemma base_directives_forms:
  "list_all documented_form (spec_base_directives w hdr libdir libname ver)"
  by (simp add: spec_base_directives_def documented_form_def is_action_env_line_action_env_line
      is_build_flag_line_def starts_with_def)

lemma platform_directives_forms:
  "list_all documented_form (spec_platform_directives w)"
  by (simp add: spec_platform_directives_def documented_form_def is_build_flag_line_def
      is_build_config_line_def starts_with_def)

lemma cuda_block_forms:
  "list_all (\<lambda>l. documented_form l \<or> l = ''test --config=cuda'') (spec_cuda_block w)"
  by (simp add: spec_cuda_block_def documented_form_def is_action_env_line_action_env_line
      is_build_flag_line_def is_build_config_line_def starts_with_def)

lemma rocm_block_forms:
  "list_all (\<lambda>l. documented_form l \<or> l = ''test --config=rocm'') (spec_rocm_block w)"
  by (simp add: spec_rocm_block_def documented_form_def is_action_env_line_action_env_line
      is_build_flag_line_def is_build_config_line_def starts_with_def)

lemma base_directives_not_gpu:
  "list_all (\<lambda>l. \<not> is_cuda_directive l \<and> \<not> is_rocm_directive l)
     (spec_base_directives w hdr libdir libname ver)"
  by (simp add: spec_base_directives_def is_cuda_directive_def is_rocm_directive_def
      action_env_line_def starts_with_def)

lemma platform_directives_not_gpu:
  "list_all (\<lambda>l. \<not> is_cuda_directive l \<and> \<not> is_rocm_directive l) (spec_platform_directives w)"
  by (simp add: spec_platform_directives_def is_cuda_directive_def is_rocm_directive_def
      starts_with_def)



section \<open>The lines of the file\<close>

lemma split_on_join:
  "split_on sep (a @ sep # b) = split_on sep a @ split_on sep b"
proof (induction a)
  case Nil
  show ?case by simp
next
  case (Cons c cs)
  obtain p ps where "split_on sep cs = p # ps"
    using split_on_not_Nil [of sep cs] by (cases "split_on sep cs") auto
  then show ?case using Cons by simp
qed

lemma split_on_file_text:
  "split_on (CHR 0x0A) (file_text ls) = concat (map (split_on (CHR 0x0A)) ls) @ [[]]"
proof (induction ls)
  case Nil
  show ?case by (simp add: file_text_def)
next
  case (Cons r rs)
  have "file_text (r # rs) = r @ CHR 0x0A # file_text rs" by (simp add: file_text_def)
  then show ?case using Cons by (simp add: split_on_join)
qed

lemma file_lines_file_text:
  "file_lines (file_text ls) = concat (map (split_on (CHR 0x0A)) ls)"
  by (simp add: file_lines_def split_on_file_text)

lemma split_on_newline_free: "newline_free r \<Longrightarrow> split_on (CHR 0x0A) r = [r]"
  by (simp add: newline_free_def split_on_no_sep)

lemma file_lines_newline_free:
  "list_all newline_free ls \<Longrightarrow> file_lines (file_text ls) = ls"
  by (induction ls) (simp_all add: file_lines_file_text split_on_newline_free)

lemma record_is_file_line:
  assumes "r \<in> set ls" "newline_free r"
  shows "r \<in> set (file_lines (file_text ls))"
proof -
  have "r \<in> set (split_on (CHR 0x0A) r)"
    using assms(2) by (simp add: split_on_newline_free)
  then have "\<exists>x \<in> set ls. r \<in> set (split_on (CHR 0x0A) x)"
    using assms(1) by blast
  then show ?thesis by (simp add: file_lines_file_text)
qed

lemma newline_free_append: "newline_free (a @ b) = (newline_free a \<and> newline_free b)"
  by (auto simp: newline_free_def)

lemma newline_free_action_env_line:
  "newline_free (action_env_line var val) = (newline_free var \<and> newline_free val)"
  by (simp add: action_env_line_def newline_free_append) (simp add: newline_free_def)

lemma is_digit_not_newline: "is_digit c \<Longrightarrow> c \<noteq> CHR 0x0A"
  by (auto simp: is_digit_def)

lemma newline_free_digits_of: "newline_free (digits_of n)"
proof -
  have "\<forall>c \<in> set (digits_of n). is_digit c"
    using digits_of_digits [of n] by (simp add: list_all_iff)
  then show ?thesis unfolding newline_free_def using is_digit_not_newline by blast
qed

lemma newline_free_py_str: "newline_free (py_str i)"
  using newline_free_digits_of [of "nat i"] newline_free_digits_of [of "nat (- i)"]
  by (simp add: py_str_def newline_free_def)

section \<open>The runs of the example hosts\<close>

lemmas run_defs =
  create_build_configuration_def is_linux_def is_macos_def
  is_windows_def is_arm64_def is_raspi_arm_def check_bazel_version_def
  check_bazel_version_for_macOS_arm64_def
  get_installed_and_valid_bazel_version_def VALID_BAZEL_VERSION_def str_ge_def strip_def
  is_space_def int_strip_def is_int_space_def extract_tf_header_def get_tf_header_dir_def get_tf_version_integer_def
  split_version_def py_int_def is_digit_def dec_val_def digit_val_def py_str_def
  digits_of.simps digit_char_def get_tf_shared_lib_dir_def get_shared_lib_name_def
  write_action_env_def write_line_def getenv_def write_windows_options_def
  write_avx_option_def write_gpu_options_def configure_cuda_def configure_rocm_def
  replace_def starts_with_def slice_2_m7_def backslash_def Let_def

lemma linux_host_run:
  \<open>create_build_configuration linux_host f =
     (None, Some [''build --action_env TF_HEADER_DIR="/usr/lib/tf/include"'',
                  ''build --action_env TF_SHARED_LIBRARY_DIR="/usr/lib/tf"'',
                  ''build --action_env TF_SHARED_LIBRARY_NAME="libtensorflow_framework.so.2"'',
                  ''build --action_env TF_CXX11_ABI_FLAG="0"'',
                  ''build --action_env TF_VERSION_INTEGER="2051"'',
                  ''build --action_env FOR_TF_SERVING="0"'',
                  ''build --spawn_strategy=standalone'',
                  ''build --strategy=Genrule=standalone'',
                  ''build -c opt'',
                  ''build --copt=-mavx''])\<close>
  by (simp add: linux_host_def run_defs)

lemma cuda_host_run:
  \<open>create_build_configuration cuda_host f =
     (None, Some [''build --action_env TF_HEADER_DIR="/usr/lib/tf/include"'',
                  ''build --action_env TF_SHARED_LIBRARY_DIR="/usr/lib/tf"'',
                  ''build --action_env TF_SHARED_LIBRARY_NAME="libtensorflow_framework.so.2"'',
                  ''build --action_env TF_CXX11_ABI_FLAG="0"'',
                  ''build --action_env TF_VERSION_INTEGER="2051"'',
                  ''build --action_env FOR_TF_SERVING="0"'',
                  ''build --spawn_strategy=standalone'',
                  ''build --strategy=Genrule=standalone'',
                  ''build -c opt'',
                  ''build --copt=-mavx'',
                  ''build --action_env TF_NEED_CUDA="1"'',
                  ''build --action_env CUDA_TOOLKIT_PATH="/usr/local/cuda"'',
                  ''build --action_env CUDNN_INSTALL_PATH="/usr/lib/x86_64-linux-gnu"'',
                  ''build --action_env TF_CUDA_VERSION="11.0"'',
                  ''build --action_env TF_CUDNN_VERSION="8.0"'',
                  ''test --config=cuda'',
                  ''build --config=cuda'',
                  ''build:cuda --define=using_cuda=true --define=using_cuda_nvcc=true'',
                  ''build:cuda --crosstool_top=@local_config_cuda//crosstool:toolchain''])\<close>
  by (simp add: cuda_host_def linux_host_def run_defs)


lemma windows_host_run:
  \<open>create_build_configuration windows_host f =
     (None, Some [''build --action_env TF_HEADER_DIR="C:/tf/include"'',
                  ''build --action_env TF_SHARED_LIBRARY_DIR="C:/tf/python"'',
                  ''build --action_env TF_SHARED_LIBRARY_NAME="_pywrap_tensorflow_internal.lib"'',
                  ''build --action_env TF_CXX11_ABI_FLAG="0"'',
                  ''build --action_env TF_VERSION_INTEGER="2051"'',
                  ''build --action_env FOR_TF_SERVING="0"'',
                  ''build --spawn_strategy=standalone'',
                  ''build --strategy=Genrule=standalone'',
                  ''build -c opt'',
                  ''build --config=windows'',
                  ''build:windows --enable_runfiles'',
                  ''build:windows --copt=/experimental:preprocessor'',
                  ''build:windows --host_copt=/experimental:preprocessor'',
                  ''build:windows --copt=/arch=AVX''])\<close>
  by (simp add: windows_host_def linux_host_def run_defs)


lemma macos_arm64_host_run:
  \<open>create_build_configuration macos_arm64_host f =
     (None, Some [''build --action_env TF_HEADER_DIR="/usr/lib/tf/include"'',
                  ''build --action_env TF_SHARED_LIBRARY_DIR="/usr/lib/tf"'',
                  ''build --action_env TF_SHARED_LIBRARY_NAME="libtensorflow_framework.dylib"'',
                  ''build --action_env TF_CXX11_ABI_FLAG="0"'',
                  ''build --action_env TF_VERSION_INTEGER="2051"'',
                  ''build --action_env FOR_TF_SERVING="0"'',
                  ''build --spawn_strategy=standalone'',
                  ''build --strategy=Genrule=standalone'',
                  ''build -c opt''])\<close>
  by (simp add: macos_arm64_host_def linux_host_def run_defs)




lemma legacy_host_validation: "validation legacy_host = Some ExtractionFailed"
  by (simp add: validation_def legacy_host_def linux_host_def run_defs)

lemma linux_old_bazel_validation: "validation linux_old_bazel = Some BuildToolVersionMismatch"
  by (simp add: validation_def linux_old_bazel_def linux_host_def run_defs)

lemma short_link_flags_host_run:
  \<open>create_build_configuration short_link_flags_host f =
     (Some IndexError, Some [''build --action_env TF_HEADER_DIR="/usr/lib/tf/include"'',
                  ''build --action_env TF_SHARED_LIBRARY_DIR="/usr/lib/tf"''])\<close>
  by (simp add: short_link_flags_host_def linux_host_def run_defs)

section \<open>Where a run can fail\<close>







lemma validation_failed_run:
  "validation w = Some e \<Longrightarrow> create_build_configuration w f = (Some e, None)"
  by (simp add: create_build_configuration_cases)


lemma full_directives_forms:
  assumes "l \<in> set (spec_full_directives w hdr libdir libname ver)"
  shows "documented_form l
       \<or> (l = ''test --config=cuda'' \<and> getenv w ''TF_NEED_CUDA'' ''0'' = ''1'')
       \<or> (l = ''test --config=rocm'' \<and> getenv w ''TF_NEED_CUDA'' ''0'' \<noteq> ''1''
            \<and> getenv w ''TF_NEED_ROCM'' ''0'' = ''1'')"
proof -
  consider "l \<in> set (spec_base_directives w hdr libdir libname ver)"
    | "l \<in> set (spec_platform_directives w)" | "l \<in> set (spec_gpu_directives w)"
    using assms by (auto simp: spec_full_directives_def)
  then show ?thesis
  proof cases
    case 1
    then show ?thesis using base_directives_forms [of w hdr libdir libname ver]
      by (simp add: list_all_iff)
  next
    case 2
    then show ?thesis using platform_directives_forms [of w] by (simp add: list_all_iff)
  next
    case 3
    then show ?thesis using cuda_block_forms [of w] rocm_block_forms [of w]
      by (auto simp: spec_gpu_directives_def list_all_iff split: if_splits)
  qed
qed

lemma base_directives_no_copt:
  "list_all (\<lambda>l. \<not> starts_with ''build --copt='' l)
     (spec_base_directives w hdr libdir libname ver)"
  by (simp add: spec_base_directives_def action_env_line_def starts_with_def)

lemma gpu_directives_no_copt:
  "list_all (\<lambda>l. \<not> starts_with ''build --copt='' l) (spec_gpu_directives w)"
  by (simp add: spec_gpu_directives_def spec_cuda_block_def spec_rocm_block_def
      action_env_line_def starts_with_def)

lemma windows_platform_directives:
  "is_windows w \<Longrightarrow>
     spec_platform_directives w =
       [''build --config=windows'',
        ''build:windows --enable_runfiles'',
        ''build:windows --copt=/experimental:preprocessor'',
        ''build:windows --host_copt=/experimental:preprocessor'',
        ''build:windows --copt=/arch=AVX'']"
  by (auto simp: spec_platform_directives_def is_windows_def is_macos_def is_linux_def)

lemma non_gpu_part:
  "list_all (\<lambda>l. \<not> is_cuda_directive l \<and> \<not> is_rocm_directive l)
     (spec_base_directives w hdr libdir libname ver @ spec_platform_directives w)"
  using base_directives_not_gpu [of w hdr libdir libname ver] platform_directives_not_gpu [of w]
  by simp

lemma getenv_one: "(getenv w name ''0'' = ''1'') = (environ w name = Some ''1'')"
  by (rule getenv_eq_iff) simp

section \<open>Values with and without newlines\<close>

lemma newline_free_fixed:
  "list_all newline_free
     [''build --spawn_strategy=standalone'', ''build --strategy=Genrule=standalone'',
      ''build -c opt'']"
  by (simp add: newline_free_def)

lemma base_directives_newline_free:
  assumes "newline_free hdr" "newline_free libdir" "newline_free libname"
    "newline_free (getenv w ''FOR_TF_SERVING'' ''0'')"
  shows "list_all newline_free (spec_base_directives w hdr libdir libname ver)"
  using assms newline_free_fixed
  by (simp add: spec_base_directives_def newline_free_action_env_line newline_free_py_str)
     (simp add: newline_free_def)

lemma platform_directives_newline_free:
  "list_all newline_free (spec_platform_directives w)"
  by (simp add: spec_platform_directives_def newline_free_def)

lemma gpu_directives_newline_free:
  assumes "list_all newline_free
     (if getenv w ''TF_NEED_CUDA'' ''0'' = ''1''
        then [getenv w ''CUDA_TOOLKIT_PATH'' ''/usr/local/cuda'',
              getenv w ''CUDNN_INSTALL_PATH'' ''/usr/lib/x86_64-linux-gnu'',
              getenv w ''TF_CUDA_VERSION'' ''11.0'',
              getenv w ''TF_CUDNN_VERSION'' ''8.0'']
        else if getenv w ''TF_NEED_ROCM'' ''0'' = ''1''
        then [getenv w ''ROCM_PATH'' ''/opt/rocm'']
        else [])"
  shows "list_all newline_free (spec_gpu_directives w)"
proof (cases "getenv w ''TF_NEED_CUDA'' ''0'' = ''1''")
  case True
  then show ?thesis using assms
    by (simp add: spec_gpu_directives_def spec_cuda_block_def newline_free_action_env_line)
       (simp add: newline_free_def)
next
  case False
  show ?thesis
  proof (cases "getenv w ''TF_NEED_ROCM'' ''0'' = ''1''")
    case True
    then show ?thesis using assms False
      by (simp add: spec_gpu_directives_def spec_rocm_block_def newline_free_action_env_line)
         (simp add: newline_free_def)
  next
    case r: False
    then show ?thesis using False by (simp add: spec_gpu_directives_def)
  qed
qed

lemma records_newline_free:
  assumes "snd (create_build_configuration w f) = Some ls"
    and "list_all newline_free (written_values w)"
  shows "list_all newline_free ls"
proof (cases "fst (create_build_configuration w f)")
  case None
  then have "create_build_configuration w f = (None, Some ls)"
    using assms(1) by (cases "create_build_configuration w f") auto
  then obtain hdr libdir libname ver where
    g: "get_tf_header_dir w = Inr hdr" "get_tf_shared_lib_dir w = Inr libdir"
       "get_shared_lib_name w = Inr libname"
    and ls: "ls = spec_full_directives w hdr libdir libname ver"
    using create_build_configuration_success by blast
  have v: "newline_free hdr" "newline_free libdir" "newline_free libname"
      "newline_free (getenv w ''FOR_TF_SERVING'' ''0'')"
    using assms(2) g by (simp_all add: written_values_def)
  have gp: "list_all newline_free (spec_gpu_directives w)"
    using assms(2) g by (intro gpu_directives_newline_free) (simp add: written_values_def)
  show ?thesis
    using ls base_directives_newline_free [OF v, of ver] platform_directives_newline_free [of w] gp
    by (simp add: spec_full_directives_def)
next
  case (Some e)
  then have "create_build_configuration w f = (Some e, Some ls)"
    using assms(1) by (cases "create_build_configuration w f") auto
  from create_build_configuration_failure [OF this]
  consider hdr where "get_tf_header_dir w = Inr hdr" "ls = [action_env_line ''TF_HEADER_DIR'' hdr]"
    | hdr libdir where "get_tf_header_dir w = Inr hdr" "get_tf_shared_lib_dir w = Inr libdir"
        "ls = [action_env_line ''TF_HEADER_DIR'' hdr,
               action_env_line ''TF_SHARED_LIBRARY_DIR'' libdir]"
    by auto
  then show ?thesis
  proof cases
    case 1
    then have "newline_free hdr" using assms(2) by (simp add: written_values_def)
    then show ?thesis using 1
      by (simp add: newline_free_action_env_line) (simp add: newline_free_def)
  next
    case 2
    then have "newline_free hdr" "newline_free libdir"
      using assms(2) by (simp_all add: written_values_def)
    then show ?thesis using 2
      by (simp add: newline_free_action_env_line) (simp add: newline_free_def)
  qed
qed

lemma file_lines_of_run:
  assumes "snd (create_build_configuration w f) = Some ls"
    and "list_all newline_free (written_values w)"
  shows "file_lines (file_text ls) = ls"
  using records_newline_free [OF assms] by (rule file_lines_newline_free)

lemma linux_host_values: "list_all newline_free (written_values linux_host)"
  by (simp add: written_values_def newline_free_def linux_host_def run_defs)

lemma cuda_host_values: "list_all newline_free (written_values cuda_host)"
  by (simp add: written_values_def newline_free_def cuda_host_def linux_host_def run_defs)

lemma windows_host_values: "list_all newline_free (written_values windows_host)"
  by (simp add: written_values_def newline_free_def windows_host_def linux_host_def run_defs)

lemma newline_cuda_host_lines:
  \<open>fst (create_build_configuration newline_cuda_host f) = None
   \<and> file_lines (file_text (the (snd (create_build_configuration newline_cuda_host f)))) =
          [''build --action_env TF_HEADER_DIR="/usr/lib/tf/include"'',
           ''build --action_env TF_SHARED_LIBRARY_DIR="/usr/lib/tf"'',
           ''build --action_env TF_SHARED_LIBRARY_NAME="libtensorflow_framework.so.2"'',
           ''build --action_env TF_CXX11_ABI_FLAG="0"'',
           ''build --action_env TF_VERSION_INTEGER="2051"'',
           ''build --action_env FOR_TF_SERVING="a'',
           ''b"'',
           ''build --spawn_strategy=standalone'',
           ''build --strategy=Genrule=standalone'',
           ''build -c opt'',
           ''build --copt=-mavx'',
           ''build --action_env TF_NEED_CUDA="1"'',
           ''build --action_env CUDA_TOOLKIT_PATH="/usr/local/cuda"'',
           ''build --action_env CUDNN_INSTALL_PATH="/usr/lib/x86_64-linux-gnu"'',
           ''build --action_env TF_CUDA_VERSION="11.0"'',
           ''build --action_env TF_CUDNN_VERSION="8.0"'',
           ''test --config=cuda'',
           ''build --config=cuda'',
           ''build:cuda --define=using_cuda=true --define=using_cuda_nvcc=true'',
           ''build:cuda --crosstool_top=@local_config_cuda//crosstool:toolchain'']\<close>
  by (simp add: newline_cuda_host_def linux_host_def run_defs file_lines_file_text)

lemma injected_host_lines:
  \<open>fst (create_build_configuration injected_host f) = None
   \<and> file_lines (file_text (the (snd (create_build_configuration injected_host f)))) =
          [''build --action_env TF_HEADER_DIR="/usr/lib/tf/include"'',
           ''build --action_env TF_SHARED_LIBRARY_DIR="/usr/lib/tf"'',
           ''build --action_env TF_SHARED_LIBRARY_NAME="libtensorflow_framework.so.2"'',
           ''build --action_env TF_CXX11_ABI_FLAG="0"'',
           ''build --action_env TF_VERSION_INTEGER="2051"'',
           ''build --action_env FOR_TF_SERVING="0'',
           ''build --config=cuda'',
           ''"'',
           ''build --spawn_strategy=standalone'',
           ''build --strategy=Genrule=standalone'',
           ''build -c opt'',
           ''build --copt=-mavx'']\<close>
  by (simp add: injected_host_def linux_host_def run_defs file_lines_file_text)

lemma records_forms:
  assumes "snd (create_build_configuration w f) = Some ls" and "l \<in> set ls"
  shows "documented_form l
       \<or> (l = ''test --config=cuda'' \<and> getenv w ''TF_NEED_CUDA'' ''0'' = ''1'')
       \<or> (l = ''test --config=rocm'' \<and> getenv w ''TF_NEED_CUDA'' ''0'' \<noteq> ''1''
            \<and> getenv w ''TF_NEED_ROCM'' ''0'' = ''1'')"
proof (cases "fst (create_build_configuration w f)")
  case None
  then have "create_build_configuration w f = (None, Some ls)"
    using assms(1) by (cases "create_build_configuration w f") auto
  then obtain hdr libdir libname ver where "ls = spec_full_directives w hdr libdir libname ver"
    using create_build_configuration_success by blast
  then show ?thesis using assms(2) full_directives_forms by blast
next
  case (Some e)
  then have "create_build_configuration w f = (Some e, Some ls)"
    using assms(1) by (cases "create_build_configuration w f") auto
  from create_build_configuration_failure [OF this] have "is_action_env_line l"
    using assms(2) is_action_env_line_action_env_line by auto
  then show ?thesis by (simp add: documented_form_def)
qed

lemma windows_records:
  assumes "is_windows w" and "create_build_configuration w f = (None, Some ls)"
  shows "''build:windows --copt=/arch=AVX'' \<in> set ls
       \<and> ''build --config=windows'' \<in> set ls
       \<and> \<not> list_ex (is_avx_directive_under ''build'') ls"
proof -
  obtain hdr libdir libname ver where
    ls: "ls = spec_base_directives w hdr libdir libname ver
              @ spec_platform_directives w @ spec_gpu_directives w"
    using create_build_configuration_success [OF assms(2)]
    by (auto simp: spec_full_directives_def)
  note p = windows_platform_directives [OF assms(1)]
  have m: "''build:windows --copt=/arch=AVX'' \<in> set ls" "''build --config=windows'' \<in> set ls"
    using ls p by simp_all
  have np: "list_all (\<lambda>l. \<not> starts_with ''build --copt='' l) (spec_platform_directives w)"
    unfolding p by (simp add: starts_with_def)
  have "list_all (\<lambda>l. \<not> starts_with ''build --copt='' l) ls"
    using ls np base_directives_no_copt [of w hdr libdir libname ver] gpu_directives_no_copt [of w]
    by simp
  then have "\<not> list_ex (is_avx_directive_under ''build'') ls"
    by (auto simp: list_ex_iff list_all_iff is_avx_directive_under_def)
  then show ?thesis using m by simp
qed

lemma cuda_records:
  assumes "create_build_configuration w f = (None, Some ls)"
    and "environ w ''TF_NEED_CUDA'' = Some ''1''" and "environ w ''TF_CUDA_VERSION'' = None"
  shows \<open>''build --action_env TF_CUDA_VERSION="11.0"'' \<in> set ls
         \<and> ''build:cuda --crosstool_top=@local_config_cuda//crosstool:toolchain'' \<in> set ls\<close>
proof -
  obtain hdr libdir libname ver where
    ls: "ls = (spec_base_directives w hdr libdir libname ver @ spec_platform_directives w)
              @ spec_gpu_directives w"
    using create_build_configuration_success [OF assms(1)]
    by (auto simp: spec_full_directives_def)
  have "spec_gpu_directives w = spec_cuda_block w"
    using assms(2) by (simp add: spec_gpu_directives_def getenv_one)
  then show ?thesis using assms(3) ls
    by (simp add: spec_cuda_block_def action_env_line_def getenv_def)
qed

lemma cpu_only_records:
  assumes "create_build_configuration w f = (None, Some ls)"
    and "environ w ''TF_NEED_CUDA'' \<noteq> Some ''1''" and "environ w ''TF_NEED_ROCM'' \<noteq> Some ''1''"
  shows "\<forall>l \<in> set ls. \<not> is_cuda_directive l \<and> \<not> is_rocm_directive l"
proof -
  obtain hdr libdir libname ver where
    ls: "ls = (spec_base_directives w hdr libdir libname ver @ spec_platform_directives w)
              @ spec_gpu_directives w"
    using create_build_configuration_success [OF assms(1)]
    by (auto simp: spec_full_directives_def)
  have "spec_gpu_directives w = []"
    using assms(2,3) by (simp add: spec_gpu_directives_def getenv_one)
  then show ?thesis using ls non_gpu_part [of w hdr libdir libname ver]
    by (simp add: list_all_iff)
qed

lemma newline_free_literals:
  \<open>newline_free ''build:windows --copt=/arch=AVX''\<close>
  \<open>newline_free ''build --config=windows''\<close>
  \<open>newline_free ''build --action_env TF_CUDA_VERSION="11.0"''\<close>
  \<open>newline_free ''build:cuda --crosstool_top=@local_config_cuda//crosstool:toolchain''\<close>
  by (simp_all add: newline_free_def)

section \<open>The claims\<close>

subsection \<open>C1: the version integer of a version made of digits\<close>

text \<open>
  Claim C1, as amended. For every version string \<open>M.mm.p\<close> where \<open>M\<close> is one digit
  other than 0, \<open>mm\<close> is one or two digits and \<open>p\<close> is one digit,
  \<open>get_tf_version_integer\<close> returns \<open>M * 1000 + mm * 10 + p\<close>; and for all \<open>M\<close> in
  1..9, \<open>mm\<close> in 0..99 and \<open>p\<close> in 0..9 the decimal form of that number has exactly
  four characters, so the length error of line 164 is not raised for these versions.
  With \<open>M = 0\<close> the result has fewer than four digits and line 164 raises, as the
  version 0.12.1 shows: that is why the claim needs \<open>M\<close> in 1..9 throughout.
\<close>

theorem version_integer_of_digits:
  assumes "tf_version w = Some ([M] @ ''.'' @ mm @ ''.'' @ [p])"
    and "is_digit M" and "M \<noteq> CHR ''0''"
    and "list_all is_digit mm" and "1 \<le> length mm" and "length mm \<le> 2"
    and "is_digit p"
  shows "get_tf_version_integer w = Inr (digit_val M * 1000 + dec_val mm * 10 + digit_val p)
       \<and> length (py_str (digit_val M * 1000 + dec_val mm * 10 + digit_val p)) = 4
       \<and> 1 \<le> digit_val M \<and> digit_val M \<le> 9 \<and> 0 \<le> dec_val mm \<and> dec_val mm \<le> 99
       \<and> 0 \<le> digit_val p \<and> digit_val p \<le> 9
       \<and> (\<forall>a b c. 1 \<le> a \<and> a \<le> 9 \<and> 0 \<le> b \<and> b \<le> 99 \<and> 0 \<le> c \<and> c \<le> 9
             \<longrightarrow> length (py_str (a * 1000 + b * 10 + c)) = 4)"
proof -
  let ?n = "digit_val M * 1000 + dec_val mm * 10 + digit_val p"
  have rM: "1 \<le> digit_val M \<and> digit_val M \<le> 9"
    using assms(2,3) digit_val_pos digit_val_range by blast
  have rmm: "0 \<le> dec_val mm \<and> dec_val mm \<le> 99" using assms(6,4) by (rule dec_val_range)
  have rp: "0 \<le> digit_val p \<and> digit_val p \<le> 9" using assms(7) by (rule digit_val_range)
  have num: "\<And>a b c::int. 1 \<le> a \<and> a \<le> 9 \<and> 0 \<le> b \<and> b \<le> 99 \<and> 0 \<le> c \<and> c \<le> 9
      \<Longrightarrow> length (py_str (a * 1000 + b * 10 + c)) = 4"
    by (rule length_py_str_4) arith+
  have len: "length (py_str ?n) = 4" using rM rmm rp by (intro num) simp
  have sv: "split_version ([M] @ ''.'' @ mm @ ''.'' @ [p]) = Inr ([M], mm, [p])"
    using assms(2,4,6,7) by (rule split_version_digits)
  have iM: "py_int [M] = Inr (digit_val M)"
    using assms(2) py_int_digits [of "[M]"] by (simp add: dec_val_def)
  have imm: "py_int mm = Inr (dec_val mm)"
  proof -
    have "mm \<noteq> []" using assms(5) by auto
    then show ?thesis using assms(4) by (rule py_int_digits)
  qed
  have ip: "py_int [p] = Inr (digit_val p)"
    using assms(7) py_int_digits [of "[p]"] by (simp add: dec_val_def)
  have "get_tf_version_integer w = Inr ?n"
    using get_tf_version_integer_parts [OF assms(1) sv iM imm ip] len by simp
  then show ?thesis using len rM rmm rp num by blast
qed

theorem version_integer_of_digits_witness:
  "get_tf_version_integer (linux_host\<lparr>tf_version := Some ''2.99.1''\<rparr>) = Inr 2991
   \<and> length (py_str 2991) = 4"
  using version_integer_of_digits [of "linux_host\<lparr>tf_version := Some ''2.99.1''\<rparr>" "CHR ''2''" "''99''" "CHR ''1''"]
  by (simp add: is_digit_def digit_val_def dec_val_def)

theorem version_integer_zero_major_counterexample:
  "is_digit CHR ''0'' \<and> list_all is_digit ''12'' \<and> is_digit CHR ''1''
   \<and> get_tf_version_integer (linux_host\<lparr>tf_version := Some ''0.12.1''\<rparr>)
       = Inl VersionIntegerLengthError"
  by (simp add: get_tf_version_integer_def linux_host_def split_version_def py_int_def int_strip_def
      is_int_space_def is_digit_def dec_val_def digit_val_def py_str_def digits_of.simps digit_char_def)

subsection \<open>C2: the required Bazel version\<close>

text \<open>
  Claim C2. \<open>_VALID_BAZEL_VERSION\<close> returns 4.1.0 on macOS with an arm64 processor,
  whatever the framework version; otherwise 0.26.1 when the framework version is below
  2.0.0 in the order of strings; otherwise 4.2.1. The \<open>else\<close> branch that raises is
  reached by no input, since a string that is not below another is above it or equal to it.
\<close>

theorem valid_bazel_version_table:
  "VALID_BAZEL_VERSION w v =
     Inr (if is_macos w \<and> is_arm64 w then ''4.1.0''
          else if str_lt v ''2.0.0'' then ''0.26.1'' else ''4.2.1'')"
  using str_lt_total [of v "''2.0.0''"] by (simp add: VALID_BAZEL_VERSION_def)

theorem valid_bazel_version_table_witness:
  "VALID_BAZEL_VERSION macos_arm64_host ''2.5.1'' = Inr ''4.1.0''
   \<and> VALID_BAZEL_VERSION linux_host ''1.15.2'' = Inr ''0.26.1''
   \<and> VALID_BAZEL_VERSION linux_host ''2.5.1'' = Inr ''4.2.1''"
  using valid_bazel_version_table [of macos_arm64_host "''2.5.1''"]
    valid_bazel_version_table [of linux_host "''1.15.2''"]
    valid_bazel_version_table [of linux_host "''2.5.1''"]
  by (simp add: macos_arm64_host_def linux_host_def is_macos_def is_arm64_def)

subsection \<open>C3: which hosts check the installed Bazel\<close>




subsection \<open>C4: the forms of the lines of the file\<close>

text \<open>
  Claim C4, as amended. In every run, on every host and with every environment in
  which no value written into the file holds a newline (the values are the header
  directory, the directory and the name of the shared library, the value of
  \<open>FOR_TF_SERVING\<close> and the values of the variables of the selected GPU block), every
  line of \<open>.bazelrc\<close> has one of the forms \<open>build --action_env VAR="VALUE"\<close>,
  \<open>build <flag>\<close> and \<open>build:<config> <flag>\<close>, or it is the line
  \<open>test --config=cuda\<close> of the CUDA block (only when \<open>TF_NEED_CUDA\<close> is 1) or the
  line \<open>test --config=rocm\<close> of the ROCm block (only when \<open>TF_NEED_CUDA\<close> is not 1
  and \<open>TF_NEED_ROCM\<close> is 1). The lines are those of the bytes of the file. A value
  that holds a newline is written as it is, and what follows the newline is a line of
  its own, of any form.
\<close>

theorem appended_lines_forms:
  assumes "snd (create_build_configuration w f) = Some ls"
    and "list_all newline_free (written_values w)"
    and "l \<in> set (file_lines (file_text ls))"
  shows "documented_form l
       \<or> (l = ''test --config=cuda'' \<and> getenv w ''TF_NEED_CUDA'' ''0'' = ''1'')
       \<or> (l = ''test --config=rocm'' \<and> getenv w ''TF_NEED_CUDA'' ''0'' \<noteq> ''1''
            \<and> getenv w ''TF_NEED_ROCM'' ''0'' = ''1'')"
proof -
  have "file_lines (file_text ls) = ls"
    using assms(1,2) by (rule file_lines_of_run)
  then have "l \<in> set ls" using assms(3) by simp
  with assms(1) show ?thesis by (rule records_forms)
qed

theorem appended_lines_forms_witness:
  "documented_form ''build --copt=-mavx''
   \<and> ''test --config=cuda''
       \<in> set (file_lines (file_text (the (snd (create_build_configuration cuda_host None)))))
   \<and> getenv cuda_host ''TF_NEED_CUDA'' ''0'' = ''1''"
proof -
  have l: "snd (create_build_configuration linux_host None)
             = Some (the (snd (create_build_configuration linux_host None)))"
    by (simp only: linux_host_run snd_conv option.sel)
  have c: "snd (create_build_configuration cuda_host None)
             = Some (the (snd (create_build_configuration cuda_host None)))"
    by (simp only: cuda_host_run snd_conv option.sel)
  have lm: "''build --copt=-mavx''
      \<in> set (file_lines (file_text (the (snd (create_build_configuration linux_host None)))))"
    unfolding file_lines_of_run [OF l linux_host_values]
    by (simp only: linux_host_run snd_conv option.sel list.set insert_iff simp_thms)
  have cm: "''test --config=cuda''
      \<in> set (file_lines (file_text (the (snd (create_build_configuration cuda_host None)))))"
    unfolding file_lines_of_run [OF c cuda_host_values]
    by (simp only: cuda_host_run snd_conv option.sel list.set insert_iff simp_thms)
  have n: "\<not> documented_form ''test --config=cuda''"
      "getenv linux_host ''TF_NEED_CUDA'' ''0'' \<noteq> ''1''"
      "''build --copt=-mavx'' \<noteq> ''test --config=cuda''"
    by (simp_all add: test_line_not_documented getenv_def linux_host_def)
  from appended_lines_forms [OF l linux_host_values lm]
    appended_lines_forms [OF c cuda_host_values cm] cm n
  show ?thesis by blast
qed

theorem undocumented_lines_counterexample:
  \<open>fst (create_build_configuration newline_cuda_host None) = None
   \<and> file_lines (file_text (the (snd (create_build_configuration newline_cuda_host None)))) =
          [''build --action_env TF_HEADER_DIR="/usr/lib/tf/include"'',
           ''build --action_env TF_SHARED_LIBRARY_DIR="/usr/lib/tf"'',
           ''build --action_env TF_SHARED_LIBRARY_NAME="libtensorflow_framework.so.2"'',
           ''build --action_env TF_CXX11_ABI_FLAG="0"'',
           ''build --action_env TF_VERSION_INTEGER="2051"'',
           ''build --action_env FOR_TF_SERVING="a'',
           ''b"'',
           ''build --spawn_strategy=standalone'',
           ''build --strategy=Genrule=standalone'',
           ''build -c opt'',
           ''build --copt=-mavx'',
           ''build --action_env TF_NEED_CUDA="1"'',
           ''build --action_env CUDA_TOOLKIT_PATH="/usr/local/cuda"'',
           ''build --action_env CUDNN_INSTALL_PATH="/usr/lib/x86_64-linux-gnu"'',
           ''build --action_env TF_CUDA_VERSION="11.0"'',
           ''build --action_env TF_CUDNN_VERSION="8.0"'',
           ''test --config=cuda'',
           ''build --config=cuda'',
           ''build:cuda --define=using_cuda=true --define=using_cuda_nvcc=true'',
           ''build:cuda --crosstool_top=@local_config_cuda//crosstool:toolchain'']
   \<and> \<not> is_action_env_line ''test --config=cuda''
   \<and> \<not> is_build_flag_line ''test --config=cuda''
   \<and> \<not> is_build_config_line ''test --config=cuda''
   \<and> \<not> is_action_env_line ''b"''
   \<and> \<not> is_build_flag_line ''b"''
   \<and> \<not> is_build_config_line ''b"''\<close>
  using newline_cuda_host_lines [of None]
  by (simp add: is_action_env_line_def is_build_flag_line_def is_build_config_line_def
      starts_with_def)

subsection \<open>C5: the AVX directives on Windows\<close>

text \<open>
  Claim C5, as amended. On a Windows host with a processor other than arm64, the file of
  a run that succeeded has among its lines an AVX code-generation directive under the
  \<open>windows\<close> build configuration, namely \<open>build:windows --copt=/arch=AVX\<close>, and the
  directive \<open>build --config=windows\<close> that selects this configuration; and when no
  value written into the file holds a newline, no line of the file is an AVX
  code-generation directive under the default build configuration.
\<close>

theorem windows_avx_directive:
  assumes "is_windows w" and "\<not> is_arm64 w"
    and "create_build_configuration w f = (None, Some ls)"
  shows "list_ex (is_avx_directive_under ''build:windows'') (file_lines (file_text ls))
       \<and> ''build:windows --copt=/arch=AVX'' \<in> set (file_lines (file_text ls))
       \<and> ''build --config=windows'' \<in> set (file_lines (file_text ls))
       \<and> (list_all newline_free (written_values w) \<longrightarrow>
            \<not> list_ex (is_avx_directive_under ''build'') (file_lines (file_text ls)))"
proof -
  note r = windows_records [OF assms(1,3)]
  have m: "''build:windows --copt=/arch=AVX'' \<in> set (file_lines (file_text ls))"
      "''build --config=windows'' \<in> set (file_lines (file_text ls))"
    using r newline_free_literals(1,2) by (simp_all add: record_is_file_line)
  have win: "is_avx_directive_under ''build:windows'' ''build:windows --copt=/arch=AVX''"
    by (simp add: is_avx_directive_under_def starts_with_def)
  have ex: "list_ex (is_avx_directive_under ''build:windows'') (file_lines (file_text ls))"
    using m(1) win unfolding list_ex_iff by blast
  have neg: "\<not> list_ex (is_avx_directive_under ''build'') (file_lines (file_text ls))"
    if "list_all newline_free (written_values w)"
  proof -
    have "snd (create_build_configuration w f) = Some ls" using assms(3) by simp
    then have "file_lines (file_text ls) = ls" using that by (rule file_lines_of_run)
    then show ?thesis using r by simp
  qed
  show ?thesis using ex m neg by blast
qed

theorem windows_avx_directive_witness:
  "\<not> list_ex (is_avx_directive_under ''build'')
        (file_lines (file_text (the (snd (create_build_configuration windows_host None)))))
   \<and> ''build:windows --copt=/arch=AVX''
       \<in> set (file_lines (file_text (the (snd (create_build_configuration windows_host None)))))"
proof -
  have w: "is_windows windows_host" and a: "\<not> is_arm64 windows_host"
    by (simp_all add: windows_host_def linux_host_def is_windows_def is_arm64_def)
  have r: "create_build_configuration windows_host None
             = (None, Some (the (snd (create_build_configuration windows_host None))))"
    by (simp only: windows_host_run snd_conv option.sel)
  from windows_avx_directive [OF w a r] windows_host_values show ?thesis by blast
qed

theorem windows_default_avx_counterexample:
  \<open>is_windows windows_host \<and> \<not> is_arm64 windows_host
   \<and> fst (create_build_configuration windows_host None) = None
   \<and> file_lines (file_text (the (snd (create_build_configuration windows_host None)))) =
          [''build --action_env TF_HEADER_DIR="C:/tf/include"'',
           ''build --action_env TF_SHARED_LIBRARY_DIR="C:/tf/python"'',
           ''build --action_env TF_SHARED_LIBRARY_NAME="_pywrap_tensorflow_internal.lib"'',
           ''build --action_env TF_CXX11_ABI_FLAG="0"'',
           ''build --action_env TF_VERSION_INTEGER="2051"'',
           ''build --action_env FOR_TF_SERVING="0"'',
           ''build --spawn_strategy=standalone'',
           ''build --strategy=Genrule=standalone'',
           ''build -c opt'',
           ''build --config=windows'',
           ''build:windows --enable_runfiles'',
           ''build:windows --copt=/experimental:preprocessor'',
           ''build:windows --host_copt=/experimental:preprocessor'',
           ''build:windows --copt=/arch=AVX'']
   \<and> \<not> list_ex (is_avx_directive_under ''build'')
          [''build --action_env TF_HEADER_DIR="C:/tf/include"'',
           ''build --action_env TF_SHARED_LIBRARY_DIR="C:/tf/python"'',
           ''build --action_env TF_SHARED_LIBRARY_NAME="_pywrap_tensorflow_internal.lib"'',
           ''build --action_env TF_CXX11_ABI_FLAG="0"'',
           ''build --action_env TF_VERSION_INTEGER="2051"'',
           ''build --action_env FOR_TF_SERVING="0"'',
           ''build --spawn_strategy=standalone'',
           ''build --strategy=Genrule=standalone'',
           ''build -c opt'',
           ''build --config=windows'',
           ''build:windows --enable_runfiles'',
           ''build:windows --copt=/experimental:preprocessor'',
           ''build:windows --host_copt=/experimental:preprocessor'',
           ''build:windows --copt=/arch=AVX'']\<close>
proof -
  have r: "snd (create_build_configuration windows_host None)
             = Some (the (snd (create_build_configuration windows_host None)))"
    by (simp only: windows_host_run snd_conv option.sel)
  show ?thesis
    unfolding file_lines_of_run [OF r windows_host_values]
    using windows_host_run [of None]
    by (simp add: windows_host_def linux_host_def is_windows_def is_arm64_def
        is_avx_directive_under_def starts_with_def)
qed

subsection \<open>C6: the CUDA defaults, and a run without a GPU backend\<close>

text \<open>
  Claim C6, as amended. When \<open>TF_NEED_CUDA\<close> is 1 and \<open>TF_CUDA_VERSION\<close> is not
  set, the file of a run that succeeded has the line
  \<open>build --action_env TF_CUDA_VERSION="11.0"\<close> and the line that selects the CUDA
  toolchain. When neither \<open>TF_NEED_CUDA\<close> nor \<open>TF_NEED_ROCM\<close> is 1 and no value
  written into the file holds a newline, no line of the file is a CUDA directive or a
  ROCm directive. A value that holds a newline can bring such a line into the file:
  the values are written as they are.
\<close>

theorem cuda_defaults_and_cpu_only:
  assumes "create_build_configuration w f = (None, Some ls)"
  shows \<open>(environ w ''TF_NEED_CUDA'' = Some ''1'' \<and> environ w ''TF_CUDA_VERSION'' = None \<longrightarrow>
            ''build --action_env TF_CUDA_VERSION="11.0"'' \<in> set (file_lines (file_text ls))
            \<and> ''build:cuda --crosstool_top=@local_config_cuda//crosstool:toolchain''
                \<in> set (file_lines (file_text ls)))
       \<and> (environ w ''TF_NEED_CUDA'' \<noteq> Some ''1'' \<and> environ w ''TF_NEED_ROCM'' \<noteq> Some ''1''
           \<and> list_all newline_free (written_values w) \<longrightarrow>
            (\<forall>l \<in> set (file_lines (file_text ls)).
                \<not> is_cuda_directive l \<and> \<not> is_rocm_directive l))\<close>
proof -
  have a: \<open>''build --action_env TF_CUDA_VERSION="11.0"'' \<in> set (file_lines (file_text ls))
            \<and> ''build:cuda --crosstool_top=@local_config_cuda//crosstool:toolchain''
                \<in> set (file_lines (file_text ls))\<close>
    if "environ w ''TF_NEED_CUDA'' = Some ''1''" "environ w ''TF_CUDA_VERSION'' = None"
    using cuda_records [OF assms that] newline_free_literals(3,4)
    by (simp add: record_is_file_line)
  have b: "\<forall>l \<in> set (file_lines (file_text ls)). \<not> is_cuda_directive l \<and> \<not> is_rocm_directive l"
    if "environ w ''TF_NEED_CUDA'' \<noteq> Some ''1''" "environ w ''TF_NEED_ROCM'' \<noteq> Some ''1''"
      "list_all newline_free (written_values w)"
  proof -
    have "snd (create_build_configuration w f) = Some ls" using assms by simp
    then have "file_lines (file_text ls) = ls" using that(3) by (rule file_lines_of_run)
    then show ?thesis using cpu_only_records [OF assms that(1,2)] by simp
  qed
  show ?thesis using a b by blast
qed

theorem cuda_defaults_and_cpu_only_witness:
  \<open>''build --action_env TF_CUDA_VERSION="11.0"''
      \<in> set (file_lines (file_text (the (snd (create_build_configuration cuda_host None)))))
   \<and> ''build:cuda --crosstool_top=@local_config_cuda//crosstool:toolchain''
      \<in> set (file_lines (file_text (the (snd (create_build_configuration cuda_host None)))))
   \<and> \<not> list_ex is_cuda_directive
          (file_lines (file_text (the (snd (create_build_configuration linux_host None)))))
   \<and> \<not> list_ex is_rocm_directive
          (file_lines (file_text (the (snd (create_build_configuration linux_host None)))))\<close>
proof -
  have c: "environ cuda_host ''TF_NEED_CUDA'' = Some ''1''
           \<and> environ cuda_host ''TF_CUDA_VERSION'' = None"
    by (simp add: cuda_host_def linux_host_def)
  have n: "environ linux_host ''TF_NEED_CUDA'' \<noteq> Some ''1''
           \<and> environ linux_host ''TF_NEED_ROCM'' \<noteq> Some ''1''"
    by (simp add: linux_host_def)
  have cr: "create_build_configuration cuda_host None
             = (None, Some (the (snd (create_build_configuration cuda_host None))))"
    by (simp only: cuda_host_run snd_conv option.sel)
  have lr: "create_build_configuration linux_host None
             = (None, Some (the (snd (create_build_configuration linux_host None))))"
    by (simp only: linux_host_run snd_conv option.sel)
  from cuda_defaults_and_cpu_only [OF cr] cuda_defaults_and_cpu_only [OF lr] c n
    linux_host_values
  show ?thesis unfolding list_ex_iff by blast
qed

theorem injected_cuda_directive_counterexample:
  \<open>environ injected_host ''TF_NEED_CUDA'' \<noteq> Some ''1''
   \<and> environ injected_host ''TF_NEED_ROCM'' \<noteq> Some ''1''
   \<and> fst (create_build_configuration injected_host None) = None
   \<and> file_lines (file_text (the (snd (create_build_configuration injected_host None)))) =
          [''build --action_env TF_HEADER_DIR="/usr/lib/tf/include"'',
           ''build --action_env TF_SHARED_LIBRARY_DIR="/usr/lib/tf"'',
           ''build --action_env TF_SHARED_LIBRARY_NAME="libtensorflow_framework.so.2"'',
           ''build --action_env TF_CXX11_ABI_FLAG="0"'',
           ''build --action_env TF_VERSION_INTEGER="2051"'',
           ''build --action_env FOR_TF_SERVING="0'',
           ''build --config=cuda'',
           ''"'',
           ''build --spawn_strategy=standalone'',
           ''build --strategy=Genrule=standalone'',
           ''build -c opt'',
           ''build --copt=-mavx'']
   \<and> is_cuda_directive ''build --config=cuda''\<close>
  using injected_host_lines [of None]
  by (simp add: injected_host_def linux_host_def is_cuda_directive_def)

subsection \<open>C7: the version strings that line 161 rejects\<close>

text \<open>
  Claim C7, as amended. The version parsing fails with the error of line 161 for every
  version string that does not split at its dots into exactly three components with a
  major of exactly one character, a minor of at most two characters and a patch of exactly
  one character; it fails with that error for no other version string. In particular
  2.0 and 10.0.0 fail. The assertions count characters: that the characters are digits
  is not checked there, and a minor such as \<open>+5\<close> is accepted by \<open>int\<close>.
\<close>

theorem malformed_version_by_lengths:
  assumes "tf_version w = Some v"
  shows "(get_tf_version_integer w = Inl MalformedVersionString) = (\<not> version_lengths_ok v)"
proof (cases "version_lengths_ok v")
  case True
  then obtain a b c where "split_version v = Inr (a, b, c)"
    using split_version_Inr by blast
  then show ?thesis using True get_tf_version_integer_after_split [OF assms] by simp
next
  case False
  then show ?thesis using assms
    by (simp add: get_tf_version_integer_def split_version_Inl)
qed

theorem malformed_version_by_lengths_witness:
  "get_tf_version_integer (linux_host\<lparr>tf_version := Some ''2.0''\<rparr>) = Inl MalformedVersionString
   \<and> get_tf_version_integer (linux_host\<lparr>tf_version := Some ''10.0.0''\<rparr>)
        = Inl MalformedVersionString"
  using malformed_version_by_lengths [of "linux_host\<lparr>tf_version := Some ''2.0''\<rparr>" "''2.0''"]
    malformed_version_by_lengths [of "linux_host\<lparr>tf_version := Some ''10.0.0''\<rparr>" "''10.0.0''"]
  by (simp add: version_lengths_ok_def)

theorem signed_minor_accepted_counterexample:
  "\<not> version_digits_ok ''2.+5.1''
   \<and> get_tf_version_integer (linux_host\<lparr>tf_version := Some ''2.+5.1''\<rparr>) = Inr 2051"
  by (simp add: version_digits_ok_def get_tf_version_integer_def linux_host_def split_version_def
      py_int_def int_strip_def is_int_space_def is_digit_def dec_val_def digit_val_def py_str_def
      digits_of.simps digit_char_def)

subsection \<open>C8: a run writes everything or stops where it failed\<close>

text \<open>
  Claim C8. Every run ends in one of these ways: without error, and then the file holds
  the full sequence of directives; with an error of the validation, and then the file
  is missing; or with an error of a later query, and then the file holds the directives
  written before that query and nothing else. A run that fails during the validation
  (the check of Bazel or the extraction of the headers) leaves the file missing, also
  when a file was there before the run: the old file is removed first.
\<close>

theorem no_partial_success:
  "((\<exists>hdr libdir libname ver.
        get_tf_header_dir w = Inr hdr \<and> get_tf_shared_lib_dir w = Inr libdir
        \<and> get_shared_lib_name w = Inr libname \<and> get_tf_version_integer w = Inr ver
        \<and> create_build_configuration w f
            = (None, Some (spec_full_directives w hdr libdir libname ver)))
    \<or> (\<exists>e. validation w = Some e \<and> create_build_configuration w f = (Some e, None))
    \<or> (\<exists>e hdr. validation w = None \<and> get_tf_header_dir w = Inr hdr
          \<and> get_tf_shared_lib_dir w = Inl e
          \<and> create_build_configuration w f
              = (Some e, Some [action_env_line ''TF_HEADER_DIR'' hdr]))
    \<or> (\<exists>e hdr libdir. validation w = None \<and> get_tf_header_dir w = Inr hdr
          \<and> get_tf_shared_lib_dir w = Inr libdir \<and> get_shared_lib_name w = Inl e
          \<and> create_build_configuration w f
              = (Some e, Some [action_env_line ''TF_HEADER_DIR'' hdr,
                               action_env_line ''TF_SHARED_LIBRARY_DIR'' libdir])))
   \<and> (\<forall>e. validation w = Some e \<longrightarrow> create_build_configuration w f = (Some e, None))"
proof
  obtain out fl where r: "create_build_configuration w f = (out, fl)"
    by (cases "create_build_configuration w f")
  show "(\<exists>hdr libdir libname ver.
        get_tf_header_dir w = Inr hdr \<and> get_tf_shared_lib_dir w = Inr libdir
        \<and> get_shared_lib_name w = Inr libname \<and> get_tf_version_integer w = Inr ver
        \<and> create_build_configuration w f
            = (None, Some (spec_full_directives w hdr libdir libname ver)))
    \<or> (\<exists>e. validation w = Some e \<and> create_build_configuration w f = (Some e, None))
    \<or> (\<exists>e hdr. validation w = None \<and> get_tf_header_dir w = Inr hdr
          \<and> get_tf_shared_lib_dir w = Inl e
          \<and> create_build_configuration w f
              = (Some e, Some [action_env_line ''TF_HEADER_DIR'' hdr]))
    \<or> (\<exists>e hdr libdir. validation w = None \<and> get_tf_header_dir w = Inr hdr
          \<and> get_tf_shared_lib_dir w = Inr libdir \<and> get_shared_lib_name w = Inl e
          \<and> create_build_configuration w f
              = (Some e, Some [action_env_line ''TF_HEADER_DIR'' hdr,
                               action_env_line ''TF_SHARED_LIBRARY_DIR'' libdir]))"
  proof (cases out)
    case None
    then have "create_build_configuration w f = (None, fl)" using r by simp
    from create_build_configuration_success [OF this] show ?thesis
      using r None by auto
  next
    case (Some e)
    then have "create_build_configuration w f = (Some e, fl)" using r by simp
    from create_build_configuration_failure [OF this] show ?thesis
      using r Some by auto
  qed
next
  show "\<forall>e. validation w = Some e \<longrightarrow> create_build_configuration w f = (Some e, None)"
    by (simp add: validation_failed_run)
qed

theorem no_partial_success_witness:
  "create_build_configuration legacy_host (Some [''stale'']) = (Some ExtractionFailed, None)
   \<and> create_build_configuration linux_old_bazel (Some [''stale''])
       = (Some BuildToolVersionMismatch, None)
   \<and> create_build_configuration short_link_flags_host (Some [''stale''])
       = (Some IndexError,
          Some [action_env_line ''TF_HEADER_DIR'' ''/usr/lib/tf/include'',
                action_env_line ''TF_SHARED_LIBRARY_DIR'' ''/usr/lib/tf''])"
  using no_partial_success [of legacy_host "Some [''stale'']"]
    no_partial_success [of linux_old_bazel "Some [''stale'']"]
    legacy_host_validation linux_old_bazel_validation
    short_link_flags_host_run [of "Some [''stale'']"]
  by (simp add: action_env_line_def)

subsection \<open>C9: running the generator twice\<close>

text \<open>
  Claim C9. A second run of the generator, started on the file the first run left and
  with the same host, framework and environment, ends as the first run did and leaves a
  file with the same bytes: the second run removes the file of the first and writes
  the same lines again.
\<close>

theorem generator_idempotent:
  "create_build_configuration w (snd (create_build_configuration w f))
     = create_build_configuration w f
   \<and> map_option file_text (snd (create_build_configuration w
                                  (snd (create_build_configuration w f))))
     = map_option file_text (snd (create_build_configuration w f))"
  using create_build_configuration_initial [of w "snd (create_build_configuration w f)" f]
  by simp

subsection \<open>C10: the backend is selected by the exact string 1\<close>




end
